theory Spec2Isabelle
  imports Main "HOL-Library.Code_Target_Numeral"
begin

section \<open>JavaScript strings and JSON values\<close>

text \<open>
  A JavaScript string is a sequence of UTF-16 code units; a code unit is held as a natural
  number, so the source's escape for the code unit 0412 (hexadecimal) is the number \<open>0x0412\<close>.
  Text that the source writes in ASCII is written with \<open>ascii\<close>.
\<close>

type_synonym jstring = "nat list"

definition ascii :: "string \<Rightarrow> jstring" where
  "ascii = map of_char"

text \<open>
  \<open>String.prototype.trim\<close> removes the WhiteSpace and LineTerminator code points of
  ECMAScript from both ends.
\<close>

definition is_ws :: "nat \<Rightarrow> bool" where
  "is_ws c = (c \<in> set [0x09, 0x0A, 0x0B, 0x0C, 0x0D, 0x20, 0xA0, 0x1680, 0x2028, 0x2029,
                        0x202F, 0x205F, 0x3000, 0xFEFF] \<or> (0x2000 \<le> c \<and> c \<le> 0x200A))"

definition trim :: "jstring \<Rightarrow> jstring" where
  "trim s = rev (dropWhile is_ws (rev (dropWhile is_ws s)))"

text \<open>\<open>Array.prototype.join\<close> on an array of strings.\<close>

fun join :: "jstring \<Rightarrow> jstring list \<Rightarrow> jstring" where
  "join sep [] = []"
| "join sep [x] = x"
| "join sep (x # y # ys) = x @ sep @ join sep (y # ys)"

text \<open>Decimal digits of an integer, as \<open>Number.prototype.toString\<close> prints one.\<close>

fun show_nat :: "nat \<Rightarrow> jstring" where
  "show_nat n = (if n < 10 then [48 + n] else show_nat (n div 10) @ [48 + n mod 10])"

declare show_nat.simps [simp del]

definition show_int :: "int \<Rightarrow> jstring" where
  "show_int i = (if i < 0 then 45 # show_nat (nat (- i)) else show_nat (nat i))"

text \<open>
  The value \<open>JSON.parse\<close> returns. A number is held as an integer: the model covers the
  integer-valued numbers that a double holds exactly (magnitude at most \<open>2^53\<close>), which is
  what the step counter and the millisecond durations of the stream are. An object is the
  list of its own members. \<open>undefined\<close>, which JSON does not have and a member read
  produces, is \<open>None\<close> of \<open>json option\<close>.
\<close>

datatype json =
    JNull
  | JBool bool
  | JNum int
  | JStr jstring
  | JArr "json list"
  | JObj "(jstring \<times> json) list"

text \<open>The outcome of \<open>JSON.parse(event.data)\<close>: a syntax error or a value.\<close>

datatype raw = Unparseable | Parsed json

datatype error = SyntaxError | TypeError | NetworkFailure

text \<open>ToBoolean.\<close>

fun truthy :: "json \<Rightarrow> bool" where
  "truthy JNull = False"
| "truthy (JBool b) = b"
| "truthy (JNum n) = (n \<noteq> 0)"
| "truthy (JStr s) = (s \<noteq> [])"
| "truthy (JArr xs) = True"
| "truthy (JObj kv) = True"

definition truthy_opt :: "json option \<Rightarrow> bool" where
  "truthy_opt x = (case x of None \<Rightarrow> False | Some v \<Rightarrow> truthy v)"

text \<open>
  ToString, as a template literal, a property key and \<open>join\<close> apply it. \<open>None\<close> is the
  TypeError that an object with an own member \<open>toString\<close> raises (the member is not
  callable, and \<open>valueOf\<close> gives no primitive). An array prints its elements joined by
  commas, \<open>null\<close> elements as the empty string.
\<close>

fun to_string :: "json \<Rightarrow> jstring option" where
  "to_string JNull = Some (ascii ''null'')"
| "to_string (JBool b) = Some (if b then ascii ''true'' else ascii ''false'')"
| "to_string (JNum n) = Some (show_int n)"
| "to_string (JStr s) = Some s"
| "to_string (JArr xs) =
     map_option (join (ascii '',''))
       (those (map (\<lambda>x. if x = JNull then Some [] else to_string x) xs))"
| "to_string (JObj kv) =
     (if map_of kv (ascii ''toString'') \<noteq> None then None
      else Some (ascii ''[object Object]''))"


text \<open>
  A member read \<open>v.k\<close> on a value that is not \<open>null\<close>, for the member names the
  controller reads (\<open>data\<close>, \<open>step\<close>, \<open>tool\<close>, \<open>status\<close>, \<open>reason\<close>,
  \<open>duration_ms\<close>, \<open>error\<close>, \<open>summary\<close>, \<open>question\<close>, \<open>result\<close>,
  \<open>task_id\<close>, \<open>detail\<close>): only an object has them. The read on \<open>null\<close> raises
  and is a branch of each caller.
\<close>

definition member :: "json \<Rightarrow> jstring \<Rightarrow> json option" where
  "member v k = (case v of JObj kv \<Rightarrow> map_of kv k | _ \<Rightarrow> None)"

text \<open>\<open>x || ''\<close> and \<open>x || {}\<close>.\<close>

definition or_empty :: "json option \<Rightarrow> json" where
  "or_empty x = (case x of None \<Rightarrow> JStr [] | Some v \<Rightarrow> if truthy v then v else JStr [])"

definition or_object :: "json option \<Rightarrow> json" where
  "or_object x = (case x of None \<Rightarrow> JObj [] | Some v \<Rightarrow> if truthy v then v else JObj [])"

text \<open>\<open>x || y\<close> where \<open>x\<close> is a string or \<open>undefined\<close>.\<close>

definition str_or :: "jstring option \<Rightarrow> jstring \<Rightarrow> jstring" where
  "str_or x y = (case x of None \<Rightarrow> y | Some v \<Rightarrow> if v = [] then y else v)"

section \<open>Members of an object literal\<close>

text \<open>
  A member read \<open>obj[k]\<close> on an object literal finds the members that the literal
  lists and, under every other name, what each object inherits from
  \<open>Object.prototype\<close>: eleven built-in functions and the accessor \<open>__proto__\<close>, whose
  value is the prototype itself. Every inherited member is truthy.
\<close>

definition OBJECT_PROTOTYPE :: "jstring list" where
  "OBJECT_PROTOTYPE = [
    ascii ''constructor'', ascii ''toString'', ascii ''toLocaleString'', ascii ''valueOf'',
    ascii ''hasOwnProperty'', ascii ''isPrototypeOf'', ascii ''propertyIsEnumerable'',
    ascii ''__proto__'', ascii ''__defineGetter__'', ascii ''__defineSetter__'',
    ascii ''__lookupGetter__'', ascii ''__lookupSetter__'']"

datatype 'a looked = Undefined | Own 'a | Inherited jstring

definition lookup :: "(jstring \<times> 'a) list \<Rightarrow> jstring \<Rightarrow> 'a looked" where
  "lookup obj k =
     (case map_of obj k of
        Some v \<Rightarrow> Own v
      | None \<Rightarrow> if k \<in> set OBJECT_PROTOTYPE then Inherited k else Undefined)"

text \<open>
  ToString of the inherited member of a name, which is what a template literal, \<open>join\<close>,
  \<open>textContent\<close> and a property key make of it. The prototype prints as
  \<open>[object Object]\<close>. A built-in function prints as V8 and JavaScriptCore print one,
  \<open>function f() { [native code] }\<close> with its name for \<open>f\<close>; the function at
  \<open>constructor\<close> is named \<open>Object\<close>, every other one as its member is.
\<close>

definition member_text :: "jstring \<Rightarrow> jstring" where
  "member_text m =
     (if m = ascii ''__proto__'' then ascii ''[object Object]''
      else ascii ''function '' @ (if m = ascii ''constructor'' then ascii ''Object'' else m) @
           ascii ''() { [native code] }'')"

section \<open>Localization table\<close>

text \<open>The object literal \<open>I18N\<close>: an object of two objects of strings.\<close>

definition I18N_en :: "(jstring \<times> jstring) list" where
  "I18N_en = [
    (ascii ''title'', ascii ''Browser Agent MVP''),
    (ascii ''hint'', ascii ''Enter a multi-step task and watch the browser.''),
    (ascii ''settings_title'', ascii ''Settings''),
    (ascii ''label_theme'', ascii ''Theme''),
    (ascii ''theme_light'', ascii ''Light''),
    (ascii ''theme_dark'', ascii ''Dark''),
    (ascii ''label_search_engine'', ascii ''Search engine''),
    (ascii ''label_provider'', ascii ''LLM provider''),
    (ascii ''label_model'', ascii ''Model''),
    (ascii ''label_safe_mode'', ascii ''Safe mode''),
    (ascii ''label_browser_only'', ascii ''Browser-only''),
    (ascii ''tooltip_safe_mode'', ascii ''Safe: isolated .browser-data profile, no logins. Unsafe: uses your browser profile (set UNSAFE_BROWSER_USER_DATA_DIR in .env, browser must be closed). Risk of profile corruption.''),
    (ascii ''tooltip_browser_only'', ascii ''When enabled, the agent acts only via the browser. When disabled, it can answer directly in the console if no explicit browser task is given.''),
    (ascii ''tab_agent'', ascii ''Agent''),
    (ascii ''tab_models'', ascii ''Models''),
    (ascii ''button_run'', ascii ''Run''),
    (ascii ''button_confirm'', ascii ''Confirm / Continue''),
    (ascii ''button_stop'', ascii ''Stop''),
    (ascii ''status_idle'', ascii ''Idle''),
    (ascii ''status_starting'', ascii ''Starting task...''),
    (ascii ''status_wait_confirm'', ascii ''Waiting for confirmation''),
    (ascii ''status_wait_user'', ascii ''Waiting for user input''),
    (ascii ''status_prefix'', ascii ''Status:''),
    (ascii ''status_running'', ascii ''running''),
    (ascii ''status_waiting_confirm'', ascii ''waiting_confirm''),
    (ascii ''status_waiting_user'', ascii ''waiting_user''),
    (ascii ''status_done'', ascii ''done''),
    (ascii ''status_stopped'', ascii ''stopped''),
    (ascii ''status_error'', ascii ''error''),
    (ascii ''status_queued'', ascii ''queued''),
    (ascii ''prompt_placeholder'', ascii ''Example: Open wikipedia.org, search for Ada Lovelace, summarize 3 facts.''),
    (ascii ''log_confirm'', ascii ''CONFIRM REQUIRED''),
    (ascii ''log_user_input'', ascii ''USER INPUT NEEDED''),
    (ascii ''log_result'', ascii ''RESULT''),
    (ascii ''log_event_error'', ascii ''Event stream error or closed.''),
    (ascii ''log_failed_start'', ascii ''Failed to start''),
    (ascii ''alert_enter_task'', ascii ''Enter a task prompt.''),
    (ascii ''label_user_reply'', ascii ''User reply''),
    (ascii ''hint_user_reply'', ascii ''Type your reply and click Confirm / Continue.''),
    (ascii ''user_reply_placeholder'', ascii ''Type your reply here.''),
    (ascii ''alert_enter_reply'', ascii ''Enter a reply for the agent.''),
    (ascii ''action_navigate'', ascii ''navigating''),
    (ascii ''action_click'', ascii ''clicking''),
    (ascii ''action_type'', ascii ''typing''),
    (ascii ''action_extract'', ascii ''analyzing''),
    (ascii ''action_snapshot'', ascii ''scanning''),
    (ascii ''action_scroll'', ascii ''scrolling''),
    (ascii ''action_wait'', ascii ''waiting''),
    (ascii ''action_back'', ascii ''back''),
    (ascii ''action_forward'', ascii ''forward''),
    (ascii ''action_ask_user'', ascii ''asking''),
    (ascii ''action_finish'', ascii ''finishing''),
    (ascii ''action_stop_task'', ascii ''stopping''),
    (ascii ''action_take_screenshot'', ascii ''screenshot''),
    (ascii ''action_save_trace'', ascii ''tracing''),
    (ascii ''action_think'', ascii ''thinking''),
    (ascii ''action_access'', ascii ''blocked''),
    (ascii ''action_loop_guard'', ascii ''stuck''),
    (ascii ''action_user_input'', ascii ''reply''),
    (ascii ''action_tokens'', ascii ''tokens''),
    (ascii ''action_guard'', ascii ''rerouting'')]"

definition I18N_ru :: "(jstring \<times> jstring) list" where
  "I18N_ru = [
    (ascii ''title'', ascii ''Browser Agent MVP''),
    (ascii ''hint'', [0x0412, 0x0432, 0x0435, 0x0434, 0x0438, 0x0442, 0x0435, 0x0020, 0x0437, 0x0430, 0x0434, 0x0430, 0x0447, 0x0443, 0x0020, 0x0438, 0x0020, 0x043D, 0x0430, 0x0431, 0x043B, 0x044E, 0x0434, 0x0430, 0x0439, 0x0442, 0x0435, 0x0020, 0x0437, 0x0430, 0x0020, 0x0431, 0x0440, 0x0430, 0x0443, 0x0437, 0x0435, 0x0440, 0x043E, 0x043C, 0x002E]),
    (ascii ''settings_title'', [0x041D, 0x0430, 0x0441, 0x0442, 0x0440, 0x043E, 0x0439, 0x043A, 0x0438]),
    (ascii ''label_theme'', [0x0422, 0x0435, 0x043C, 0x0430]),
    (ascii ''theme_light'', [0x0421, 0x0432, 0x0435, 0x0442, 0x043B, 0x0430, 0x044F]),
    (ascii ''theme_dark'', [0x0422, 0x0435, 0x043C, 0x043D, 0x0430, 0x044F]),
    (ascii ''label_search_engine'', [0x041F, 0x043E, 0x0438, 0x0441, 0x043A, 0x043E, 0x0432, 0x0438, 0x043A]),
    (ascii ''label_provider'', [0x041F, 0x0440, 0x043E, 0x0432, 0x0430, 0x0439, 0x0434, 0x0435, 0x0440, 0x0020, 0x004C, 0x004C, 0x004D]),
    (ascii ''label_model'', [0x041C, 0x043E, 0x0434, 0x0435, 0x043B, 0x044C]),
    (ascii ''label_safe_mode'', [0x0411, 0x0435, 0x0437, 0x043E, 0x043F, 0x0430, 0x0441, 0x043D, 0x0430, 0x044F, 0x0020, 0x0440, 0x0430, 0x0431, 0x043E, 0x0442, 0x0430]),
    (ascii ''label_browser_only'', [0x0422, 0x043E, 0x043B, 0x044C, 0x043A, 0x043E, 0x0020, 0x0431, 0x0440, 0x0430, 0x0443, 0x0437, 0x0435, 0x0440]),
    (ascii ''tooltip_safe_mode'', [0x0412, 0x043A, 0x043B, 0x003A, 0x0020, 0x0438, 0x0437, 0x043E, 0x043B, 0x0438, 0x0440, 0x043E, 0x0432, 0x0430, 0x043D, 0x043D, 0x044B, 0x0439, 0x0020, 0x043F, 0x0440, 0x043E, 0x0444, 0x0438, 0x043B, 0x044C, 0x0020, 0x002E, 0x0062, 0x0072, 0x006F, 0x0077, 0x0073, 0x0065, 0x0072, 0x002D, 0x0064, 0x0061, 0x0074, 0x0061, 0x002C, 0x0020, 0x0432, 0x0445, 0x043E, 0x0434, 0x044B, 0x0020, 0x043D, 0x0435, 0x0020, 0x0438, 0x0441, 0x043F, 0x043E, 0x043B, 0x044C, 0x0437, 0x0443, 0x044E, 0x0442, 0x0441, 0x044F, 0x002E, 0x0020, 0x0412, 0x044B, 0x043A, 0x043B, 0x003A, 0x0020, 0x043F, 0x0440, 0x043E, 0x0444, 0x0438, 0x043B, 0x044C, 0x0020, 0x0431, 0x0440, 0x0430, 0x0443, 0x0437, 0x0435, 0x0440, 0x0430, 0x0020, 0x0028, 0x0443, 0x043A, 0x0430, 0x0436, 0x0438, 0x0442, 0x0435, 0x0020, 0x043F, 0x0443, 0x0442, 0x044C, 0x0020, 0x0432, 0x0020, 0x002E, 0x0065, 0x006E, 0x0076, 0x003A, 0x0020, 0x0055, 0x004E, 0x0053, 0x0041, 0x0046, 0x0045, 0x005F, 0x0042, 0x0052, 0x004F, 0x0057, 0x0053, 0x0045, 0x0052, 0x005F, 0x0055, 0x0053, 0x0045, 0x0052, 0x005F, 0x0044, 0x0041, 0x0054, 0x0041, 0x005F, 0x0044, 0x0049, 0x0052, 0x002C, 0x0020, 0x0431, 0x0440, 0x0430, 0x0443, 0x0437, 0x0435, 0x0440, 0x0020, 0x0434, 0x043E, 0x043B, 0x0436, 0x0435, 0x043D, 0x0020, 0x0431, 0x044B, 0x0442, 0x044C, 0x0020, 0x0437, 0x0430, 0x043A, 0x0440, 0x044B, 0x0442, 0x0029, 0x002E, 0x0020, 0x0415, 0x0441, 0x0442, 0x044C, 0x0020, 0x0440, 0x0438, 0x0441, 0x043A, 0x0020, 0x043F, 0x043E, 0x0432, 0x0440, 0x0435, 0x0434, 0x0438, 0x0442, 0x044C, 0x0020, 0x043F, 0x0440, 0x043E, 0x0444, 0x0438, 0x043B, 0x044C, 0x002E]),
    (ascii ''tooltip_browser_only'', [0x041F, 0x0440, 0x0438, 0x0020, 0x0432, 0x043A, 0x043B, 0x044E, 0x0447, 0x0435, 0x043D, 0x043D, 0x043E, 0x043C, 0x0020, 0x0440, 0x0435, 0x0436, 0x0438, 0x043C, 0x0435, 0x0020, 0x0430, 0x0433, 0x0435, 0x043D, 0x0442, 0x0020, 0x0432, 0x044B, 0x043F, 0x043E, 0x043B, 0x043D, 0x044F, 0x0435, 0x0442, 0x0020, 0x0437, 0x0430, 0x0434, 0x0430, 0x0447, 0x0438, 0x0020, 0x0442, 0x043E, 0x043B, 0x044C, 0x043A, 0x043E, 0x0020, 0x0447, 0x0435, 0x0440, 0x0435, 0x0437, 0x0020, 0x0431, 0x0440, 0x0430, 0x0443, 0x0437, 0x0435, 0x0440, 0x002E, 0x0020, 0x041F, 0x0440, 0x0438, 0x0020, 0x0432, 0x044B, 0x043A, 0x043B, 0x044E, 0x0447, 0x0435, 0x043D, 0x043D, 0x043E, 0x043C, 0x0020, 0x2014, 0x0020, 0x043C, 0x043E, 0x0436, 0x0435, 0x0442, 0x0020, 0x043E, 0x0442, 0x0432, 0x0435, 0x0447, 0x0430, 0x0442, 0x044C, 0x0020, 0x043F, 0x0440, 0x044F, 0x043C, 0x043E, 0x0020, 0x0432, 0x0020, 0x043A, 0x043E, 0x043D, 0x0441, 0x043E, 0x043B, 0x0438, 0x0020, 0x043D, 0x0438, 0x0436, 0x0435, 0x002C, 0x0020, 0x0435, 0x0441, 0x043B, 0x0438, 0x0020, 0x043D, 0x0435, 0x0442, 0x0020, 0x044F, 0x0432, 0x043D, 0x043E, 0x0439, 0x0020, 0x0437, 0x0430, 0x0434, 0x0430, 0x0447, 0x0438, 0x002E]),
    (ascii ''tab_agent'', [0x0410, 0x0433, 0x0435, 0x043D, 0x0442]),
    (ascii ''tab_models'', [0x041C, 0x043E, 0x0434, 0x0435, 0x043B, 0x0438]),
    (ascii ''button_run'', [0x0417, 0x0430, 0x043F, 0x0443, 0x0441, 0x0442, 0x0438, 0x0442, 0x044C]),
    (ascii ''button_confirm'', [0x041F, 0x043E, 0x0434, 0x0442, 0x0432, 0x0435, 0x0440, 0x0434, 0x0438, 0x0442, 0x044C, 0x0020, 0x002F, 0x0020, 0x041F, 0x0440, 0x043E, 0x0434, 0x043E, 0x043B, 0x0436, 0x0438, 0x0442, 0x044C]),
    (ascii ''button_stop'', [0x041E, 0x0441, 0x0442, 0x0430, 0x043D, 0x043E, 0x0432, 0x0438, 0x0442, 0x044C]),
    (ascii ''status_idle'', [0x041E, 0x0436, 0x0438, 0x0434, 0x0430, 0x043D, 0x0438, 0x0435]),
    (ascii ''status_starting'', [0x0417, 0x0430, 0x043F, 0x0443, 0x0441, 0x043A, 0x0020, 0x0437, 0x0430, 0x0434, 0x0430, 0x0447, 0x0438, 0x002E, 0x002E, 0x002E]),
    (ascii ''status_wait_confirm'', [0x041E, 0x0436, 0x0438, 0x0434, 0x0430, 0x043D, 0x0438, 0x0435, 0x0020, 0x043F, 0x043E, 0x0434, 0x0442, 0x0432, 0x0435, 0x0440, 0x0436, 0x0434, 0x0435, 0x043D, 0x0438, 0x044F]),
    (ascii ''status_wait_user'', [0x041E, 0x0436, 0x0438, 0x0434, 0x0430, 0x043D, 0x0438, 0x0435, 0x0020, 0x0432, 0x0432, 0x043E, 0x0434, 0x0430]),
    (ascii ''status_prefix'', [0x0421, 0x0442, 0x0430, 0x0442, 0x0443, 0x0441, 0x003A]),
    (ascii ''status_running'', [0x0432, 0x0020, 0x0440, 0x0430, 0x0431, 0x043E, 0x0442, 0x0435]),
    (ascii ''status_waiting_confirm'', [0x043E, 0x0436, 0x0438, 0x0434, 0x0430, 0x0435, 0x0442, 0x0020, 0x043F, 0x043E, 0x0434, 0x0442, 0x0432, 0x0435, 0x0440, 0x0436, 0x0434, 0x0435, 0x043D, 0x0438, 0x044F]),
    (ascii ''status_waiting_user'', [0x043E, 0x0436, 0x0438, 0x0434, 0x0430, 0x0435, 0x0442, 0x0020, 0x0432, 0x0432, 0x043E, 0x0434, 0x0430]),
    (ascii ''status_done'', [0x0433, 0x043E, 0x0442, 0x043E, 0x0432, 0x043E]),
    (ascii ''status_stopped'', [0x043E, 0x0441, 0x0442, 0x0430, 0x043D, 0x043E, 0x0432, 0x043B, 0x0435, 0x043D, 0x043E]),
    (ascii ''status_error'', [0x043E, 0x0448, 0x0438, 0x0431, 0x043A, 0x0430]),
    (ascii ''status_queued'', [0x0432, 0x0020, 0x043E, 0x0447, 0x0435, 0x0440, 0x0435, 0x0434, 0x0438]),
    (ascii ''prompt_placeholder'', [0x041F, 0x0440, 0x0438, 0x043C, 0x0435, 0x0440, 0x003A, 0x0020, 0x043E, 0x0442, 0x043A, 0x0440, 0x043E, 0x0439, 0x0442, 0x0435, 0x0020, 0x0077, 0x0069, 0x006B, 0x0069, 0x0070, 0x0065, 0x0064, 0x0069, 0x0061, 0x002E, 0x006F, 0x0072, 0x0067, 0x002C, 0x0020, 0x043D, 0x0430, 0x0439, 0x0434, 0x0438, 0x0442, 0x0435, 0x0020, 0x0041, 0x0064, 0x0061, 0x0020, 0x004C, 0x006F, 0x0076, 0x0065, 0x006C, 0x0061, 0x0063, 0x0065, 0x0020, 0x0438, 0x0020, 0x043A, 0x0440, 0x0430, 0x0442, 0x043A, 0x043E, 0x0020, 0x043F, 0x0435, 0x0440, 0x0435, 0x0441, 0x043A, 0x0430, 0x0436, 0x0438, 0x0442, 0x0435, 0x0020, 0x0033, 0x0020, 0x0444, 0x0430, 0x043A, 0x0442, 0x0430, 0x002E]),
    (ascii ''log_confirm'', [0x0422, 0x0420, 0x0415, 0x0411, 0x0423, 0x0415, 0x0422, 0x0421, 0x042F, 0x0020, 0x041F, 0x041E, 0x0414, 0x0422, 0x0412, 0x0415, 0x0420, 0x0416, 0x0414, 0x0415, 0x041D, 0x0418, 0x0415]),
    (ascii ''log_user_input'', [0x0422, 0x0420, 0x0415, 0x0411, 0x0423, 0x0415, 0x0422, 0x0421, 0x042F, 0x0020, 0x0412, 0x0412, 0x041E, 0x0414]),
    (ascii ''log_result'', [0x0420, 0x0415, 0x0417, 0x0423, 0x041B, 0x042C, 0x0422, 0x0410, 0x0422]),
    (ascii ''log_event_error'', [0x041E, 0x0448, 0x0438, 0x0431, 0x043A, 0x0430, 0x0020, 0x043F, 0x043E, 0x0442, 0x043E, 0x043A, 0x0430, 0x0020, 0x0441, 0x043E, 0x0431, 0x044B, 0x0442, 0x0438, 0x0439, 0x0020, 0x0438, 0x043B, 0x0438, 0x0020, 0x043E, 0x043D, 0x0020, 0x0437, 0x0430, 0x043A, 0x0440, 0x044B, 0x0442, 0x002E]),
    (ascii ''log_failed_start'', [0x041D, 0x0435, 0x0020, 0x0443, 0x0434, 0x0430, 0x043B, 0x043E, 0x0441, 0x044C, 0x0020, 0x0441, 0x0442, 0x0430, 0x0440, 0x0442, 0x043E, 0x0432, 0x0430, 0x0442, 0x044C]),
    (ascii ''alert_enter_task'', [0x0412, 0x0432, 0x0435, 0x0434, 0x0438, 0x0442, 0x0435, 0x0020, 0x0437, 0x0430, 0x0434, 0x0430, 0x0447, 0x0443, 0x002E]),
    (ascii ''label_user_reply'', [0x041E, 0x0442, 0x0432, 0x0435, 0x0442, 0x0020, 0x043F, 0x043E, 0x043B, 0x044C, 0x0437, 0x043E, 0x0432, 0x0430, 0x0442, 0x0435, 0x043B, 0x044E]),
    (ascii ''hint_user_reply'', [0x0412, 0x0432, 0x0435, 0x0434, 0x0438, 0x0442, 0x0435, 0x0020, 0x043E, 0x0442, 0x0432, 0x0435, 0x0442, 0x0020, 0x0438, 0x0020, 0x043D, 0x0430, 0x0436, 0x043C, 0x0438, 0x0442, 0x0435, 0x0020, 0x0043, 0x006F, 0x006E, 0x0066, 0x0069, 0x0072, 0x006D, 0x0020, 0x002F, 0x0020, 0x0043, 0x006F, 0x006E, 0x0074, 0x0069, 0x006E, 0x0075, 0x0065, 0x002E]),
    (ascii ''user_reply_placeholder'', [0x0412, 0x0432, 0x0435, 0x0434, 0x0438, 0x0442, 0x0435, 0x0020, 0x043E, 0x0442, 0x0432, 0x0435, 0x0442, 0x0020, 0x0437, 0x0434, 0x0435, 0x0441, 0x044C, 0x002E]),
    (ascii ''alert_enter_reply'', [0x0412, 0x0432, 0x0435, 0x0434, 0x0438, 0x0442, 0x0435, 0x0020, 0x043E, 0x0442, 0x0432, 0x0435, 0x0442, 0x0020, 0x0434, 0x043B, 0x044F, 0x0020, 0x0430, 0x0433, 0x0435, 0x043D, 0x0442, 0x0430, 0x002E]),
    (ascii ''action_navigate'', [0x043F, 0x0435, 0x0440, 0x0435, 0x0445, 0x043E, 0x0436, 0x0443]),
    (ascii ''action_click'', [0x043A, 0x043B, 0x0438, 0x043A, 0x0430, 0x044E]),
    (ascii ''action_type'', [0x0432, 0x0432, 0x043E, 0x0436, 0x0443]),
    (ascii ''action_extract'', [0x0430, 0x043D, 0x0430, 0x043B, 0x0438, 0x0437, 0x0438, 0x0440, 0x0443, 0x044E]),
    (ascii ''action_snapshot'', [0x043E, 0x0441, 0x043C, 0x0430, 0x0442, 0x0440, 0x0438, 0x0432, 0x0430, 0x044E]),
    (ascii ''action_scroll'', [0x043B, 0x0438, 0x0441, 0x0442, 0x0430, 0x044E]),
    (ascii ''action_wait'', [0x0436, 0x0434, 0x0443]),
    (ascii ''action_back'', [0x043D, 0x0430, 0x0437, 0x0430, 0x0434]),
    (ascii ''action_forward'', [0x0432, 0x043F, 0x0435, 0x0440, 0x0451, 0x0434]),
    (ascii ''action_ask_user'', [0x0441, 0x043F, 0x0440, 0x0430, 0x0448, 0x0438, 0x0432, 0x0430, 0x044E]),
    (ascii ''action_finish'', [0x0437, 0x0430, 0x0432, 0x0435, 0x0440, 0x0448, 0x0430, 0x044E]),
    (ascii ''action_stop_task'', [0x043E, 0x0441, 0x0442, 0x0430, 0x043D, 0x0430, 0x0432, 0x043B, 0x0438, 0x0432, 0x0430, 0x044E]),
    (ascii ''action_take_screenshot'', [0x0441, 0x043A, 0x0440, 0x0438, 0x043D, 0x0448, 0x043E, 0x0442]),
    (ascii ''action_save_trace'', [0x0442, 0x0440, 0x0430, 0x0441, 0x0441, 0x0438, 0x0440, 0x0443, 0x044E]),
    (ascii ''action_think'', [0x0434, 0x0443, 0x043C, 0x0430, 0x044E]),
    (ascii ''action_access'', [0x043D, 0x0435, 0x0442, 0x0020, 0x0434, 0x043E, 0x0441, 0x0442, 0x0443, 0x043F, 0x0430]),
    (ascii ''action_loop_guard'', [0x0437, 0x0430, 0x0441, 0x0442, 0x0440, 0x044F, 0x043B]),
    (ascii ''action_user_input'', [0x043E, 0x0442, 0x0432, 0x0435, 0x0442]),
    (ascii ''action_tokens'', [0x0442, 0x043E, 0x043A, 0x0435, 0x043D, 0x044B]),
    (ascii ''action_guard'', [0x043F, 0x0435, 0x0440, 0x0435, 0x043D, 0x0430, 0x043F, 0x0440, 0x0430, 0x0432, 0x043B, 0x044F, 0x044E])]"

definition I18N :: "(jstring \<times> (jstring \<times> jstring) list) list" where
  "I18N = [(ascii ''en'', I18N_en), (ascii ''ru'', I18N_ru)]"

text \<open>
  \<open>t(key)\<close>, with the global \<open>currentLang\<close> as its first argument:
  \<open>(I18N[currentLang] && I18N[currentLang][key]) || I18N.en[key] || key\<close>. Every
  caller prints the result or tests whether it is empty, and \<open>t\<close> is the text of it: an
  entry of a table, the key, or an inherited member of a table. Under a language tag that
  itself names an inherited member, \<open>I18N[currentLang]\<close> is a built-in object and the
  second read is a read on that object; it is taken to find nothing, as it does for every
  key that the page resolves. The members of a built-in object are those of the engine
  (\<open>name\<close> and \<open>length\<close> among them), and the facts below that speak of every key
  leave these language tags out.
\<close>

definition t :: "jstring \<Rightarrow> jstring \<Rightarrow> jstring" where
  "t lang key =
     (let fallback = (case lookup I18N_en key of
                        Own v \<Rightarrow> if v = [] then key else v
                      | Inherited m \<Rightarrow> member_text m
                      | Undefined \<Rightarrow> key)
      in case lookup I18N lang of
           Own tbl \<Rightarrow>
             (case lookup tbl key of
                Own v \<Rightarrow> if v = [] then fallback else v
              | Inherited m \<Rightarrow> member_text m
              | Undefined \<Rightarrow> fallback)
         | Inherited b \<Rightarrow> fallback
         | Undefined \<Rightarrow> fallback)"

text \<open>
  The resolution as the specification words it: the entry of the table for the language
  and key when it exists, otherwise the English entry when it exists, otherwise the key.
\<close>

definition table_entry :: "jstring \<Rightarrow> jstring \<Rightarrow> jstring option" where
  "table_entry languageTag key =
     (case map_of I18N languageTag of None \<Rightarrow> None | Some tbl \<Rightarrow> map_of tbl key)"

definition resolve :: "jstring \<Rightarrow> jstring \<Rightarrow> jstring" where
  "resolve languageTag key =
     (case table_entry languageTag key of
        Some v \<Rightarrow> v
      | None \<Rightarrow> (case table_entry (ascii ''en'') key of Some v \<Rightarrow> v | None \<Rightarrow> key))"


section \<open>Controller state\<close>

text \<open>
  An \<open>EventSource\<close> object: the address it was opened at and whether it is open
  (its \<open>readyState\<close> is not \<open>CLOSED\<close>). The state keeps every object that was ever
  created, in order of creation; the global \<open>eventSource\<close> is \<open>null\<close> or the index of
  one of them.
\<close>

record stream =
  stream_url :: jstring
  stream_open :: bool

text \<open>
  A request handed to \<open>fetch\<close> (every one is a POST): its address, whether it carries
  the JSON content-type header, and the value given to \<open>JSON.stringify\<close> for its body
  (\<open>None\<close> when it has no body).
\<close>

record request =
  req_url :: jstring
  req_json :: bool
  req_body :: "json option"

text \<open>
  The elements of the page that the handlers read or write (all of them exist in
  \<open>index.php\<close>), the four global variables, and the environment: the streams, the
  persistent store, the requests issued so far and the alerts shown so far. The labels
  that \<open>applyLanguage\<close> re-renders and the tab classes are written and never read; they
  are not part of the state.
\<close>

record state =
  promptValue :: jstring
  runDisabled :: bool
  confirmDisabled :: bool
  stopDisabled :: bool
  statusText :: jstring
  logText :: jstring
  browserOnlyChecked :: bool
  safeModeChecked :: bool
  searchEngineValue :: jstring
  providerValue :: jstring
  modelOptions :: "jstring list"
  modelValue :: jstring
  replyHidden :: bool
  replyValue :: jstring
  bodyTheme :: jstring
  eventSource :: "nat option"
  taskId :: "json option"
  currentLang :: jstring
  waitingForUserInput :: bool
  streams :: "stream list"
  localStorage :: "jstring \<rightharpoonup> jstring"
  requests :: "request list"
  alerts :: "jstring list"

text \<open>
  What a handler leaves behind: it ran to its end, or it threw and the state is what it
  had written up to the throw.
\<close>

datatype outcome = Done state | Thrown error state

definition API_BASE :: jstring where
  "API_BASE = ascii ''http://localhost:8080''"

definition setStatus :: "jstring \<Rightarrow> state \<Rightarrow> state" where
  "setStatus text s = s\<lparr>statusText := text\<rparr>"

definition appendLog :: "jstring \<Rightarrow> state \<Rightarrow> state" where
  "appendLog line s = s\<lparr>logText := logText s @ line @ [10]\<rparr>"

definition resetUI :: "state \<Rightarrow> state" where
  "resetUI s =
     setStatus (t (currentLang s) (ascii ''status_idle''))
       (s\<lparr>logText := [], confirmDisabled := True, stopDisabled := True, runDisabled := False,
          waitingForUserInput := False, replyHidden := True, replyValue := []\<rparr>)"

section \<open>Labels and durations\<close>

definition STATUS_KEYS :: "(jstring \<times> jstring) list" where
  "STATUS_KEYS = [
    (ascii ''running'', ascii ''status_running''),
    (ascii ''waiting_confirm'', ascii ''status_waiting_confirm''),
    (ascii ''waiting_user'', ascii ''status_waiting_user''),
    (ascii ''done'', ascii ''status_done''),
    (ascii ''stopped'', ascii ''status_stopped''),
    (ascii ''error'', ascii ''status_error''),
    (ascii ''queued'', ascii ''status_queued'')]"

text \<open>
  \<open>statusLabel(value)\<close> is \<open>map[value] || value\<close>, for an object literal of the seven
  labels: the member name is the argument's ToString, which may throw (\<open>None\<close>). The
  result is only ever printed; an inherited member is held as its text.
\<close>

definition statusLabel :: "jstring \<Rightarrow> json \<Rightarrow> json option" where
  "statusLabel lang v =
     (case to_string v of
        None \<Rightarrow> None
      | Some name \<Rightarrow>
          Some (case lookup STATUS_KEYS name of
                  Own key \<Rightarrow> if t lang key = [] then v else JStr (t lang key)
                | Inherited m \<Rightarrow> JStr (member_text m)
                | Undefined \<Rightarrow> v))"

definition ACTION_KEYS :: "(jstring \<times> jstring) list" where
  "ACTION_KEYS = [
    (ascii ''navigate'', ascii ''action_navigate''),
    (ascii ''click'', ascii ''action_click''),
    (ascii ''type'', ascii ''action_type''),
    (ascii ''extract'', ascii ''action_extract''),
    (ascii ''snapshot'', ascii ''action_snapshot''),
    (ascii ''scroll'', ascii ''action_scroll''),
    (ascii ''wait'', ascii ''action_wait''),
    (ascii ''wait_for_network_idle'', ascii ''action_wait''),
    (ascii ''back'', ascii ''action_back''),
    (ascii ''forward'', ascii ''action_forward''),
    (ascii ''ask_user'', ascii ''action_ask_user''),
    (ascii ''finish'', ascii ''action_finish''),
    (ascii ''stop_task'', ascii ''action_stop_task''),
    (ascii ''take_screenshot'', ascii ''action_take_screenshot''),
    (ascii ''save_trace'', ascii ''action_save_trace''),
    (ascii ''none'', ascii ''action_think''),
    (ascii ''access'', ascii ''action_access''),
    (ascii ''loop_guard'', ascii ''action_loop_guard''),
    (ascii ''user_input'', ascii ''action_user_input''),
    (ascii ''tokens'', ascii ''action_tokens''),
    (ascii ''guard'', ascii ''action_guard'')]"

text \<open>
  \<open>actionLabel(tool)\<close>: \<open>key = map[tool] || ''\<close>, then \<open>key ? t(key) : ''\<close>. When
  \<open>map[tool]\<close> is an inherited member, \<open>t\<close> is called with that member, whose ToString is
  the property key that \<open>t\<close> reads.
\<close>

definition actionLabel :: "jstring \<Rightarrow> json \<Rightarrow> jstring option" where
  "actionLabel lang tool =
     (case to_string tool of
        None \<Rightarrow> None
      | Some name \<Rightarrow>
          Some (case lookup ACTION_KEYS name of
                  Own key \<Rightarrow> if key = [] then [] else t lang key
                | Inherited m \<Rightarrow> t lang (member_text m)
                | Undefined \<Rightarrow> []))"

text \<open>
  \<open>(ms / 1000).toFixed(1)\<close> for an integer \<open>ms\<close> of at least 1000, in the double
  arithmetic of JavaScript and in integers throughout. The quotient is the double nearest
  to \<open>ms / 1000\<close>, ties to the even significand: a significand \<open>m\<close> of 53 bits and a
  scale \<open>k\<close>, of value \<open>m / 2^k\<close>. \<open>toFixed(1)\<close> takes the integer \<open>n\<close> with
  \<open>n / 10\<close> nearest to that double, the larger one at a tie, and prints its digits with
  a point before the last.
\<close>

fun bitlen :: "nat \<Rightarrow> nat" where
  "bitlen n = (if n = 0 then 0 else Suc (bitlen (n div 2)))"

declare bitlen.simps [simp del]

definition round_half_even :: "nat \<Rightarrow> nat \<Rightarrow> nat" where
  "round_half_even a b =
     (let q = a div b; r = a mod b in
      if 2 * r < b then q
      else if b < 2 * r then q + 1
      else if even q then q else q + 1)"

definition div_1000 :: "nat \<Rightarrow> nat \<times> nat" where
  "div_1000 ms = (let k = 53 - bitlen (ms div 1000) in (round_half_even (ms * 2 ^ k) 1000, k))"

definition tenths :: "nat \<times> nat \<Rightarrow> nat" where
  "tenths x = (case x of (m, k) \<Rightarrow> (20 * m + 2 ^ k) div (2 * 2 ^ k))"

definition toFixed1 :: "nat \<times> nat \<Rightarrow> jstring" where
  "toFixed1 x = (let n = tenths x in show_nat (n div 10) @ ascii ''.'' @ show_nat (n mod 10))"

text \<open>
  \<open>formatDuration(ms)\<close>. A value read from JSON is never \<open>NaN\<close>, so the first test is
  whether \<open>ms\<close> is a number. The number is an integer of the range that \<open>safe_numbers\<close>
  delimits: below 1000 it is printed with its digits, from 1000 on through the division.
\<close>

definition formatDuration :: "json option \<Rightarrow> jstring" where
  "formatDuration ms =
     (case ms of
        Some (JNum n) \<Rightarrow>
          if 1000 \<le> n then toFixed1 (div_1000 (nat n)) @ ascii ''s''
          else show_int n @ ascii ''ms''
      | _ \<Rightarrow> [])"

section \<open>The stream subscription\<close>

text \<open>\<open>if (eventSource) { eventSource.close(); }\<close>; closing a closed stream changes nothing.\<close>

fun close_at :: "nat \<Rightarrow> stream list \<Rightarrow> stream list" where
  "close_at i [] = []"
| "close_at 0 (st # sts) = st\<lparr>stream_open := False\<rparr> # sts"
| "close_at (Suc i) (st # sts) = st # close_at i sts"

definition close_current :: "state \<Rightarrow> state" where
  "close_current s =
     (case eventSource s of
        None \<Rightarrow> s
      | Some i \<Rightarrow> s\<lparr>streams := close_at i (streams s)\<rparr>)"

text \<open>ToString of a value that may be \<open>undefined\<close>.\<close>

definition to_string_opt :: "json option \<Rightarrow> jstring option" where
  "to_string_opt x = (case x of None \<Rightarrow> Some (ascii ''undefined'') | Some v \<Rightarrow> to_string v)"

text \<open>
  \<open>connectEvents(id)\<close>, up to the registration of the listeners (which are
  \<open>handle_event\<close> below): the current stream is closed, then the new one is created at
  the address built from \<open>id\<close> and becomes the current one.
\<close>

definition connectEvents :: "json option \<Rightarrow> state \<Rightarrow> outcome" where
  "connectEvents ident s =
     (let s1 = close_current s in
      case to_string_opt ident of
        None \<Rightarrow> Thrown TypeError s1
      | Some txt \<Rightarrow>
          Done (s1\<lparr>streams := streams s1 @
                       [\<lparr>stream_url = API_BASE @ ascii ''/tasks/'' @ txt @ ascii ''/events'',
                         stream_open = True\<rparr>],
                    eventSource := Some (length (streams s1))\<rparr>))"

definition open_streams :: "state \<Rightarrow> nat" where
  "open_streams s = length (filter stream_open (streams s))"

section \<open>Stream listeners\<close>

text \<open>
  An event dispatched at the stream: its type and the outcome of \<open>JSON.parse\<close> on its
  data.
\<close>

datatype event = Event jstring raw

text \<open>
  The first two statements of every listener: \<open>payload = JSON.parse(event.data)\<close>, which
  throws on text that is not JSON, and \<open>data = payload.data || {}\<close>, which throws when
  the payload is \<open>null\<close>.
\<close>

definition payload_data :: "raw \<Rightarrow> error + json" where
  "payload_data r =
     (case r of
        Unparseable \<Rightarrow> Inl SyntaxError
      | Parsed payload \<Rightarrow>
          if payload = JNull then Inl TypeError
          else Inr (or_object (member payload (ascii ''data''))))"

text \<open>
  \<open>if (x) parts.push(x)\<close> for a member \<open>x\<close> of the data: nothing when it is falsy,
  its ToString (as \<open>join\<close> applies it) otherwise.
\<close>

definition part :: "json option \<Rightarrow> jstring list option" where
  "part x =
     (case x of
        None \<Rightarrow> Some []
      | Some v \<Rightarrow> if truthy v then map_option (\<lambda>txt. [txt]) (to_string v) else Some [])"

text \<open>\<open>data.error ? ` | error: ${data.error}` : ''\<close>.\<close>

definition errorText :: "json option \<Rightarrow> jstring option" where
  "errorText x =
     (case x of
        None \<Rightarrow> Some []
      | Some v \<Rightarrow>
          if truthy v then map_option (\<lambda>txt. ascii '' | error: '' @ txt) (to_string v)
          else Some [])"

text \<open>
  The line that the \<open>log\<close> listener appends, from the data of the event; \<open>None\<close> when
  a ToString throws. Nothing is written before the line is complete.
\<close>

definition log_line :: "jstring \<Rightarrow> json \<Rightarrow> jstring option" where
  "log_line lang d =
     (case actionLabel lang (or_empty (member d (ascii ''tool''))) of None \<Rightarrow> None | Some action \<Rightarrow>
      case part (member d (ascii ''tool'')) of None \<Rightarrow> None | Some p_tool \<Rightarrow>
      case part (member d (ascii ''status'')) of None \<Rightarrow> None | Some p_status \<Rightarrow>
      case part (member d (ascii ''reason'')) of None \<Rightarrow> None | Some p_reason \<Rightarrow>
      case to_string (or_empty (member d (ascii ''step''))) of None \<Rightarrow> None | Some step \<Rightarrow>
      case errorText (member d (ascii ''error'')) of None \<Rightarrow> None | Some err \<Rightarrow>
        (let duration = formatDuration (member d (ascii ''duration_ms''));
             parts = (if action = [] then [] else [action]) @ p_tool @ p_status @ p_reason @
                     (if duration = [] then [] else [ascii ''('' @ duration @ ascii '')'']);
             message = ascii ''['' @ step @ ascii ''] '' @ join (ascii '' '') parts
         in Some (trim (message @ err))))"

definition on_log :: "state \<Rightarrow> raw \<Rightarrow> outcome" where
  "on_log s r =
     (case payload_data r of
        Inl e \<Rightarrow> Thrown e s
      | Inr d \<Rightarrow>
          (case log_line (currentLang s) d of
             None \<Rightarrow> Thrown TypeError s
           | Some line \<Rightarrow> Done (appendLog line s)))"

definition on_needs_confirmation :: "state \<Rightarrow> raw \<Rightarrow> outcome" where
  "on_needs_confirmation s r =
     (case payload_data r of
        Inl e \<Rightarrow> Thrown e s
      | Inr d \<Rightarrow>
          (case to_string (or_empty (member d (ascii ''summary''))) of
             None \<Rightarrow> Thrown TypeError s
           | Some summary \<Rightarrow>
               Done (setStatus (t (currentLang s) (ascii ''status_wait_confirm''))
                      ((appendLog (t (currentLang s) (ascii ''log_confirm'') @ ascii '': '' @ summary) s)
                         \<lparr>confirmDisabled := False, stopDisabled := False,
                          waitingForUserInput := False, replyHidden := True\<rparr>))))"

definition on_needs_user_input :: "state \<Rightarrow> raw \<Rightarrow> outcome" where
  "on_needs_user_input s r =
     (case payload_data r of
        Inl e \<Rightarrow> Thrown e s
      | Inr d \<Rightarrow>
          (case to_string (or_empty (member d (ascii ''question''))) of
             None \<Rightarrow> Thrown TypeError s
           | Some question \<Rightarrow>
               Done (setStatus (t (currentLang s) (ascii ''status_wait_user''))
                      ((appendLog (t (currentLang s) (ascii ''log_user_input'') @ ascii '': '' @ question) s)
                         \<lparr>confirmDisabled := False, stopDisabled := False,
                          waitingForUserInput := True, replyHidden := False\<rparr>))))"

definition on_result :: "state \<Rightarrow> raw \<Rightarrow> outcome" where
  "on_result s r =
     (case payload_data r of
        Inl e \<Rightarrow> Thrown e s
      | Inr d \<Rightarrow>
          (case to_string (or_empty (member d (ascii ''result''))) of
             None \<Rightarrow> Thrown TypeError s
           | Some result \<Rightarrow>
               Done (appendLog (t (currentLang s) (ascii ''log_result'') @ ascii '': '' @ result) s)))"

text \<open>\<open>['done', 'stopped', 'error'].includes(data.status)\<close>: equality without conversion.\<close>

definition terminal :: "json option \<Rightarrow> bool" where
  "terminal x =
     (x = Some (JStr (ascii ''done'')) \<or> x = Some (JStr (ascii ''stopped'')) \<or>
      x = Some (JStr (ascii ''error'')))"

definition on_status :: "state \<Rightarrow> raw \<Rightarrow> outcome" where
  "on_status s r =
     (case payload_data r of
        Inl e \<Rightarrow> Thrown e s
      | Inr d \<Rightarrow>
          (case Option.bind (statusLabel (currentLang s) (or_empty (member d (ascii ''status''))))
                  to_string of
             None \<Rightarrow> Thrown TypeError s
           | Some label \<Rightarrow>
               (let s1 = setStatus (t (currentLang s) (ascii ''status_prefix'') @ ascii '' '' @ label) s
                in if terminal (member d (ascii ''status''))
                   then Done (close_current
                          (s1\<lparr>confirmDisabled := True, stopDisabled := True, runDisabled := False,
                              waitingForUserInput := False, replyHidden := True\<rparr>))
                   else Done s1)))"

text \<open>The \<open>status\<close> member that the listeners read from an event, if the read succeeds.\<close>

definition event_status :: "raw \<Rightarrow> json option" where
  "event_status r = (case payload_data r of Inl e \<Rightarrow> None | Inr d \<Rightarrow> member d (ascii ''status''))"

definition on_error :: "state \<Rightarrow> outcome" where
  "on_error s = Done (appendLog (t (currentLang s) (ascii ''log_event_error'')) s)"

text \<open>
  The listeners that \<open>connectEvents\<close> registers, by the type of the event; an event of
  any other type has no listener.
\<close>

definition handle_event :: "state \<Rightarrow> event \<Rightarrow> outcome" where
  "handle_event s ev =
     (case ev of Event ty r \<Rightarrow>
        if ty = ascii ''log'' then on_log s r
        else if ty = ascii ''needs_confirmation'' then on_needs_confirmation s r
        else if ty = ascii ''needs_user_input'' then on_needs_user_input s r
        else if ty = ascii ''result'' then on_result s r
        else if ty = ascii ''status'' then on_status s r
        else if ty = ascii ''error'' then on_error s
        else Done s)"

text \<open>The event types whose listener parses a payload.\<close>

definition PAYLOAD_EVENTS :: "jstring list" where
  "PAYLOAD_EVENTS = [ascii ''log'', ascii ''needs_confirmation'', ascii ''needs_user_input'',
                     ascii ''result'', ascii ''status'']"

text \<open>
  An event that arrives on the stream of index \<open>i\<close>: the browser dispatches it to the
  listeners while that stream is open and drops it once the stream is closed.
\<close>

definition dispatch :: "state \<Rightarrow> nat \<Rightarrow> event \<Rightarrow> outcome" where
  "dispatch s i ev =
     (case drop i (streams s) of
        [] \<Rightarrow> Done s
      | st # sts \<Rightarrow> if stream_open st then handle_event s ev else Done s)"

text \<open>
  The state that an outcome leaves, and a sequence of events processed in arrival order:
  an exception in a listener is reported by the browser and the next event is dispatched
  as usual.
\<close>

definition state_of :: "outcome \<Rightarrow> state" where
  "state_of out = (case out of Done s \<Rightarrow> s | Thrown e s \<Rightarrow> s)"

fun run_events :: "state \<Rightarrow> event list \<Rightarrow> state" where
  "run_events s [] = s"
| "run_events s (ev # evs) = run_events (state_of (handle_event s ev)) evs"

section \<open>The three buttons\<close>

text \<open>
  The \<open>run\<close> click up to its \<open>await fetch\<close>: the alert on an empty prompt, else the
  reset of the page and the task-creation request.
\<close>

definition run_click :: "state \<Rightarrow> state" where
  "run_click s =
     (let prompt = trim (promptValue s) in
      if prompt = [] then s\<lparr>alerts := alerts s @ [t (currentLang s) (ascii ''alert_enter_task'')]\<rparr>
      else
        (let s1 = (setStatus (t (currentLang s) (ascii ''status_starting'')) (resetUI s))
                    \<lparr>runDisabled := True\<rparr>
         in s1\<lparr>requests := requests s1 @
                [\<lparr>req_url = API_BASE @ ascii ''/tasks'', req_json = True,
                  req_body = Some (JObj [
                    (ascii ''prompt'', JStr prompt),
                    (ascii ''browser_only'', JBool (browserOnlyChecked s1)),
                    (ascii ''search_engine'', JStr (searchEngineValue s1)),
                    (ascii ''model'', JStr (modelValue s1)),
                    (ascii ''provider'', JStr (providerValue s1)),
                    (ascii ''safe_mode'', JBool (safeModeChecked s1))])\<rparr>]\<rparr>))"

text \<open>
  What \<open>fetch\<close> resolves to: a rejection, or a response with its \<open>ok\<close> flag, its
  status text and the outcome of \<open>response.json()\<close>.
\<close>

datatype response = Rejected | Response bool jstring raw

text \<open>\<open>err.detail || response.statusText\<close>.\<close>

definition or_text :: "json option \<Rightarrow> jstring \<Rightarrow> json" where
  "or_text x d = (case x of None \<Rightarrow> JStr d | Some v \<Rightarrow> if truthy v then v else JStr d)"

text \<open>The rest of the \<open>run\<close> click, from the moment the response arrives.\<close>

definition run_response :: "state \<Rightarrow> response \<Rightarrow> outcome" where
  "run_response s resp =
     (case resp of
        Rejected \<Rightarrow> Thrown NetworkFailure s
      | Response ok stext body \<Rightarrow>
          if \<not> ok then
            (case body of
               Unparseable \<Rightarrow> Thrown SyntaxError s
             | Parsed err \<Rightarrow>
                 if err = JNull then Thrown TypeError s
                 else
                   (case to_string (or_text (member err (ascii ''detail'')) stext) of
                      None \<Rightarrow> Thrown TypeError s
                    | Some detail \<Rightarrow>
                        Done ((setStatus (t (currentLang s) (ascii ''status_prefix'') @ ascii '' '' @
                                          t (currentLang s) (ascii ''status_error''))
                                (appendLog (t (currentLang s) (ascii ''log_failed_start'') @
                                            ascii '': '' @ detail) s))
                              \<lparr>runDisabled := False\<rparr>)))
          else
            (case body of
               Unparseable \<Rightarrow> Thrown SyntaxError s
             | Parsed d \<Rightarrow>
                 if d = JNull then Thrown TypeError s
                 else connectEvents (member d (ascii ''task_id''))
                        (s\<lparr>taskId := member d (ascii ''task_id''), stopDisabled := False\<rparr>)))"

text \<open>The address of an action on the current task: \<open>`${API_BASE}/tasks/${taskId}/...`\<close>.\<close>

definition task_url :: "state \<Rightarrow> string \<Rightarrow> jstring option" where
  "task_url s action =
     map_option (\<lambda>txt. API_BASE @ ascii ''/tasks/'' @ txt @ ascii action) (to_string_opt (taskId s))"

definition post :: "jstring option \<Rightarrow> json option \<Rightarrow> state \<Rightarrow> outcome" where
  "post url body s =
     (case url of
        None \<Rightarrow> Thrown TypeError s
      | Some u \<Rightarrow>
          Done (s\<lparr>requests := requests s @
                    [\<lparr>req_url = u, req_json = (body \<noteq> None), req_body = body\<rparr>]\<rparr>))"

definition confirm_click :: "state \<Rightarrow> outcome" where
  "confirm_click s =
     (if \<not> truthy_opt (taskId s) then Done s
      else
        (let s1 = setStatus (ascii ''Continuing...'') (s\<lparr>confirmDisabled := True\<rparr>) in
         if waitingForUserInput s1 then
           (let reply = trim (replyValue s1) in
            if reply = [] then
              Done ((appendLog (t (currentLang s1) (ascii ''alert_enter_reply'')) s1)
                      \<lparr>confirmDisabled := False\<rparr>)
            else post (task_url s1 ''/confirm'') (Some (JObj [(ascii ''response'', JStr reply)]))
                   (s1\<lparr>replyValue := []\<rparr>))
         else post (task_url s1 ''/confirm'') None s1))"

definition stop_click :: "state \<Rightarrow> outcome" where
  "stop_click s =
     (if \<not> truthy_opt (taskId s) then Done s
      else
        (let s1 = setStatus (ascii ''Stopping...'') (s\<lparr>stopDisabled := True\<rparr>) in
         post (task_url s1 ''/stop'') None s1))"

section \<open>Settings\<close>

text \<open>\<open>localStorage.getItem(k) || d\<close> and \<open>localStorage.setItem(k, v)\<close>.\<close>

definition getItem_or :: "state \<Rightarrow> jstring \<Rightarrow> jstring \<Rightarrow> jstring" where
  "getItem_or s k d = str_or (localStorage s k) d"

definition setItem :: "jstring \<Rightarrow> jstring \<Rightarrow> state \<Rightarrow> state" where
  "setItem k v s = s\<lparr>localStorage := (localStorage s)(k \<mapsto> v)\<rparr>"

text \<open>
  The value a \<open>select\<close> element has after \<open>el.value = v\<close>: the option of that value
  becomes the selected one; with no such option none is selected and the value reads as
  the empty string.
\<close>

definition select_value :: "jstring list \<Rightarrow> jstring \<Rightarrow> jstring" where
  "select_value opts v = (if v \<in> set opts then v else [])"

text \<open>The options of the search-engine and provider selects in \<open>index.php\<close>.\<close>

definition SEARCH_OPTIONS :: "jstring list" where
  "SEARCH_OPTIONS = [ascii ''google'', ascii ''duckduckgo'', ascii ''bing'', ascii ''yandex'']"

definition PROVIDER_OPTIONS :: "jstring list" where
  "PROVIDER_OPTIONS = [ascii ''gemini'', ascii ''openai'', ascii ''ollama'', ascii ''anthropic'']"

definition MODEL_OPTIONS :: "(jstring \<times> jstring list) list" where
  "MODEL_OPTIONS = [
    (ascii ''gemini'', [ascii ''gemini-2.0-flash-lite'', ascii ''gemini-2.5-flash-lite'']),
    (ascii ''openai'', [ascii ''gpt-4.1-nano'', ascii ''gpt-4.1-mini'', ascii ''gpt-4.1'']),
    (ascii ''ollama'', [ascii ''qwen3:1.7b'', ascii ''functiongemma:latest'']),
    (ascii ''anthropic'', [ascii ''claude-3-5-sonnet-latest'', ascii ''claude-3-5-haiku-latest''])]"

text \<open>
  The option values that \<open>setModelOptions(provider)\<close> leaves in the model select:
  those of \<open>MODEL_OPTIONS[provider] || []\<close>, or the single placeholder option of empty
  value when there are none. Under the name of an inherited member \<open>options\<close> is a
  built-in function or the prototype, neither of which has \<open>forEach\<close>, and the call
  throws (\<open>None\<close>).
\<close>

definition shown_options :: "jstring \<Rightarrow> jstring list option" where
  "shown_options provider =
     (case lookup MODEL_OPTIONS provider of
        Own options \<Rightarrow> Some (if options = [] then [[]] else options)
      | Inherited m \<Rightarrow> None
      | Undefined \<Rightarrow> Some [[]])"

text \<open>
  \<open>setModelOptions(provider)\<close>: the select is emptied and refilled; the browser selects
  the first option of a drop-down that has none selected. When \<open>options.forEach\<close> throws
  the select has been emptied and stays empty.
\<close>

definition setModelOptions :: "jstring \<Rightarrow> state \<Rightarrow> outcome" where
  "setModelOptions provider s =
     (case shown_options provider of
        None \<Rightarrow> Thrown TypeError (s\<lparr>modelOptions := [], modelValue := []\<rparr>)
      | Some [] \<Rightarrow> Done (s\<lparr>modelOptions := [], modelValue := []\<rparr>)
      | Some (v # vs) \<Rightarrow> Done (s\<lparr>modelOptions := v # vs, modelValue := v\<rparr>))"

definition applyLanguage :: "jstring \<Rightarrow> state \<Rightarrow> state" where
  "applyLanguage lang s =
     (let s1 = setItem (ascii ''ui_lang'') lang (s\<lparr>currentLang := lang\<rparr>) in
      setStatus (t (currentLang s1) (ascii ''status_idle'')) s1)"

definition applyTheme :: "jstring \<Rightarrow> state \<Rightarrow> state" where
  "applyTheme theme s =
     setItem (ascii ''ui_theme'') theme
       (s\<lparr>bodyTheme := (if theme = ascii ''dark'' then ascii ''dark'' else ascii ''light'')\<rparr>)"

definition model_key :: "jstring \<Rightarrow> jstring" where
  "model_key provider = ascii ''llm_model_'' @ provider"

text \<open>\<open>loadSettings()\<close>, one definition for each of its blocks, in the order of the source.\<close>

definition load_language :: "state \<Rightarrow> state" where
  "load_language s = applyLanguage (getItem_or s (ascii ''ui_lang'') (ascii ''ru'')) s"

definition load_theme :: "state \<Rightarrow> state" where
  "load_theme s = applyTheme (getItem_or s (ascii ''ui_theme'') (ascii ''light'')) s"

definition load_search :: "state \<Rightarrow> state" where
  "load_search s =
     s\<lparr>searchEngineValue :=
         select_value SEARCH_OPTIONS (getItem_or s (ascii ''search_engine'') (ascii ''google''))\<rparr>"

definition load_model :: "state \<Rightarrow> outcome" where
  "load_model s =
     (let storedProvider = getItem_or s (ascii ''llm_provider'') (ascii ''openai'') in
      case setModelOptions storedProvider
             (s\<lparr>providerValue := select_value PROVIDER_OPTIONS storedProvider\<rparr>) of
        Thrown e s1 \<Rightarrow> Thrown e s1
      | Done s1 \<Rightarrow>
          (let storedModel = getItem_or s1 (model_key storedProvider) [];
               legacyModel = getItem_or s1 (ascii ''llm_model'') []
           in if storedModel \<noteq> [] \<or> legacyModel \<noteq> []
              then Done (s1\<lparr>modelValue := select_value (modelOptions s1)
                                            (if storedModel \<noteq> [] then storedModel
                                             else legacyModel)\<rparr>)
              else Done s1))"

definition load_safe_mode :: "state \<Rightarrow> state" where
  "load_safe_mode s =
     (case localStorage s (ascii ''safe_mode'') of
        None \<Rightarrow> s
      | Some v \<Rightarrow> s\<lparr>safeModeChecked := (v = ascii ''true'')\<rparr>)"

definition load_browser_only :: "state \<Rightarrow> state" where
  "load_browser_only s =
     (case localStorage s (ascii ''browser_only'') of
        None \<Rightarrow> s
      | Some v \<Rightarrow> s\<lparr>browserOnlyChecked := (v = ascii ''true'')\<rparr>)"

definition loadSettings :: "state \<Rightarrow> outcome" where
  "loadSettings s =
     (case load_model (load_search (load_theme (load_language s))) of
        Thrown e s1 \<Rightarrow> Thrown e s1
      | Done s1 \<Rightarrow> Done (load_browser_only (load_safe_mode s1)))"

text \<open>The \<open>change\<close> listeners of \<open>bindSettings\<close>.\<close>

definition search_change :: "state \<Rightarrow> state" where
  "search_change s = setItem (ascii ''search_engine'') (searchEngineValue s) s"

definition provider_change :: "state \<Rightarrow> outcome" where
  "provider_change s =
     (let provider = providerValue s in
      case setModelOptions provider (setItem (ascii ''llm_provider'') provider s) of
        Thrown e s1 \<Rightarrow> Thrown e s1
      | Done s1 \<Rightarrow>
          (case localStorage s1 (model_key provider) of
             None \<Rightarrow> Done s1
           | Some storedModel \<Rightarrow>
               if storedModel = [] then Done s1
               else Done (s1\<lparr>modelValue := select_value (modelOptions s1) storedModel\<rparr>)))"

definition model_change :: "state \<Rightarrow> state" where
  "model_change s = setItem (model_key (providerValue s)) (modelValue s) s"

definition safe_mode_change :: "state \<Rightarrow> state" where
  "safe_mode_change s =
     setItem (ascii ''safe_mode'') (if safeModeChecked s then ascii ''true'' else ascii ''false'') s"

definition browser_only_change :: "state \<Rightarrow> state" where
  "browser_only_change s =
     setItem (ascii ''browser_only'')
       (if browserOnlyChecked s then ascii ''true'' else ascii ''false'') s"

definition lang_toggle :: "state \<Rightarrow> state" where
  "lang_toggle s = applyLanguage (if currentLang s = ascii ''ru'' then ascii ''en'' else ascii ''ru'') s"

text \<open>
  The user picks an option of a select: the element takes the value and the browser
  dispatches \<open>change\<close>.
\<close>

definition pick_provider :: "jstring \<Rightarrow> state \<Rightarrow> outcome" where
  "pick_provider p s = provider_change (s\<lparr>providerValue := p\<rparr>)"

definition pick_model :: "jstring \<Rightarrow> state \<Rightarrow> state" where
  "pick_model m s = model_change (s\<lparr>modelValue := m\<rparr>)"

text \<open>
  The page as \<open>index.php\<close> delivers it, over a given persistent store, and the end of
  the script: \<open>loadSettings(); bindSettings(); resetUI();\<close>. When \<open>loadSettings\<close>
  throws, the script ends there.
\<close>

definition fresh_page :: "(jstring \<rightharpoonup> jstring) \<Rightarrow> state" where
  "fresh_page store =
     \<lparr>promptValue = [], runDisabled = False, confirmDisabled = True, stopDisabled = True,
      statusText = ascii ''Idle'', logText = [], browserOnlyChecked = True,
      safeModeChecked = True, searchEngineValue = ascii ''google'',
      providerValue = ascii ''gemini'',
      modelOptions = [ascii ''gemini-2.0-flash-lite'', ascii ''gemini-2.5-flash-lite''],
      modelValue = ascii ''gemini-2.0-flash-lite'', replyHidden = True, replyValue = [],
      bodyTheme = [], eventSource = None, taskId = Some JNull, currentLang = ascii ''ru'',
      waitingForUserInput = False, streams = [], localStorage = store, requests = [],
      alerts = []\<rparr>"

definition page_load :: "(jstring \<rightharpoonup> jstring) \<Rightarrow> outcome" where
  "page_load store =
     (case loadSettings (fresh_page store) of
        Thrown e s \<Rightarrow> Thrown e s
      | Done s \<Rightarrow> Done (resetUI s))"

text \<open>
  The model that the select shows once the provider listener has refilled it with the
  options \<open>opts\<close>, given what the store holds under the provider's key: the stored model
  when it is not empty (no option when the list does not have it), else the first option.
\<close>

definition model_shown :: "jstring list \<Rightarrow> jstring option \<Rightarrow> jstring" where
  "model_shown opts stored =
     (case stored of
        None \<Rightarrow> hd opts
      | Some v \<Rightarrow> if v = [] then hd opts else select_value opts v)"

text \<open>
  The model that the select shows once \<open>loadSettings\<close> has run over a store: the model
  under the provider's key when there is one, else the model under the legacy key when
  there is one, else the first option.
\<close>

definition model_loaded :: "jstring list \<Rightarrow> jstring option \<Rightarrow> jstring option \<Rightarrow> jstring" where
  "model_loaded opts stored legacy =
     (if str_or stored [] \<noteq> [] then select_value opts (str_or stored [])
      else if str_or legacy [] \<noteq> [] then select_value opts (str_or legacy [])
      else hd opts)"

section \<open>One stream at a time\<close>

text \<open>
  The streams are well formed when the global \<open>eventSource\<close> names a stream that exists
  and every other stream is closed.
\<close>

definition others_closed :: "nat option \<Rightarrow> stream list \<Rightarrow> bool" where
  "others_closed cur sts =
     list_all (\<lambda>(j, st). stream_open st \<longrightarrow> cur = Some j) (enumerate 0 sts)"

definition wf :: "state \<Rightarrow> bool" where
  "wf s =
     ((case eventSource s of None \<Rightarrow> True | Some i \<Rightarrow> i < length (streams s)) \<and>
      others_closed (eventSource s) (streams s))"

section \<open>The terminal branch of the status listener\<close>

text \<open>
  The text that the \<open>status\<close> listener shows after the prefix, and the state that its
  branch for \<open>done\<close>, \<open>stopped\<close> and \<open>error\<close> leaves.
\<close>

definition status_text :: "jstring \<Rightarrow> json option \<Rightarrow> jstring" where
  "status_text lang x =
     (case Option.bind (statusLabel lang (or_empty x)) to_string of None \<Rightarrow> [] | Some l \<Rightarrow> l)"

definition terminal_state :: "state \<Rightarrow> raw \<Rightarrow> state" where
  "terminal_state s r =
     close_current
       ((setStatus (t (currentLang s) (ascii ''status_prefix'') @ ascii '' '' @
                    status_text (currentLang s) (event_status r)) s)
          \<lparr>confirmDisabled := True, stopDisabled := True, runDisabled := False,
           waitingForUserInput := False, replyHidden := True\<rparr>)"


section \<open>The parts of a log line\<close>

text \<open>
  The fragment that a member of the data contributes to the line: nothing when the
  member is absent or falsy, else its ToString. It is undefined (\<open>None\<close>) when the
  ToString throws and for a truthy value that prints as the empty string (an array such
  as \<open>[]\<close>), which the fields of the stream never are.
\<close>

definition fragment :: "json option \<Rightarrow> jstring option" where
  "fragment x =
     (case x of
        None \<Rightarrow> Some []
      | Some v \<Rightarrow>
          if truthy v
          then (case to_string v of None \<Rightarrow> None | Some txt \<Rightarrow> if txt = [] then None else Some txt)
          else Some [])"

text \<open>
  The label that the action-label table gives a tool name in a language: for a name that
  the table lists, the text that \<open>t\<close> resolves its key to; for a name that the table
  inherits, the text of the inherited member; for any other name, nothing. And a duration
  in parentheses.
\<close>

definition action_text :: "jstring \<Rightarrow> jstring \<Rightarrow> jstring" where
  "action_text lang tool =
     (case lookup ACTION_KEYS tool of
        Own key \<Rightarrow> t lang key
      | Inherited m \<Rightarrow> member_text m
      | Undefined \<Rightarrow> [])"

definition paren :: "jstring \<Rightarrow> jstring" where
  "paren x = (if x = [] then [] else ascii ''('' @ x @ ascii '')'')"

section \<open>Example states\<close>

text \<open>
  The page in English with a prompt typed and no task yet, and the page while task
  \<open>t1\<close> waits for a reply of the user on its one open stream.
\<close>

definition example_idle :: state where
  "example_idle =
     (fresh_page Map.empty)\<lparr>currentLang := ascii ''en'', promptValue := ascii ''Open wikipedia.org''\<rparr>"

definition example_waiting :: state where
  "example_waiting =
     (fresh_page Map.empty)
       \<lparr>currentLang := ascii ''en'', promptValue := ascii ''Open wikipedia.org'',
        runDisabled := True, confirmDisabled := False, stopDisabled := False,
        statusText := ascii ''Waiting for user input'',
        taskId := Some (JStr (ascii ''t1'')), eventSource := Some 0,
        streams := [\<lparr>stream_url = ascii ''http://localhost:8080/tasks/t1/events'',
                      stream_open = True\<rparr>],
        waitingForUserInput := True, replyHidden := False, replyValue := ascii '' hi''\<rparr>"

text \<open>A \<open>status\<close> payload \<open>{"data": {"status": "done"}}\<close>.\<close>

definition done_payload :: raw where
  "done_payload = Parsed (JObj [(ascii ''data'', JObj [(ascii ''status'', JStr (ascii ''done''))])])"

text \<open>
  The page with the provider \<open>openai\<close> selected and a model stored for
  \<open>anthropic\<close>.
\<close>

definition example_openai :: state where
  "example_openai =
     (fresh_page [model_key (ascii ''anthropic'') \<mapsto> ascii ''claude-3-5-haiku-latest''])
       \<lparr>providerValue := ascii ''openai'',
        modelOptions := [ascii ''gpt-4.1-nano'', ascii ''gpt-4.1-mini'', ascii ''gpt-4.1''],
        modelValue := ascii ''gpt-4.1-nano''\<rparr>"


text \<open>The data of a \<open>log\<close> event whose tool is named \<open>constructor\<close>.\<close>

definition example_inherited :: json where
  "example_inherited =
     JObj [(ascii ''step'', JNum 1), (ascii ''tool'', JStr (ascii ''constructor'')),
           (ascii ''status'', JStr (ascii ''ok''))]"

text \<open>
  The page as delivered over a store that holds a model under the legacy key only.
\<close>

definition example_legacy :: state where
  "example_legacy = fresh_page [ascii ''llm_model'' \<mapsto> ascii ''gpt-4.1'']"

section \<open>Facts about strings\<close>

lemma ascii_eq_iff [simp]: "(ascii a = ascii b) = (a = b)"
  unfolding ascii_def by (simp add: inj_map_eq_map inj_on_def)

lemma ascii_Nil [simp]: "ascii [] = []"
  by (simp add: ascii_def)

lemma ascii_eq_Nil [simp]: "(ascii a = []) = (a = [])"
  by (simp add: ascii_def)

lemma ascii_Cons: "ascii (c # cs) = of_char c # ascii cs"
  by (simp add: ascii_def)

lemma ascii_append: "ascii (a @ b) = ascii a @ ascii b"
  by (simp add: ascii_def)

section \<open>Facts about member reads\<close>

lemma lookup_own:
  "k \<notin> set OBJECT_PROTOTYPE \<Longrightarrow>
   lookup obj k = (case map_of obj k of Some v \<Rightarrow> Own v | None \<Rightarrow> Undefined)"
  by (simp add: lookup_def split: option.splits)

lemma lookup_listed: "map_of obj k = Some v \<Longrightarrow> lookup obj k = Own v"
  by (simp add: lookup_def)

lemma lookup_Own: "lookup obj k = Own v \<Longrightarrow> map_of obj k = Some v"
  by (auto simp: lookup_def split: option.splits if_splits)

lemma lookup_Inherited: "lookup obj k = Inherited m \<Longrightarrow> m = k \<and> k \<in> set OBJECT_PROTOTYPE"
  by (auto simp: lookup_def split: option.splits if_splits)

lemma lookup_spaced:
  assumes "list_all (\<lambda>(k, v). 32 \<notin> set k) obj" and "32 \<in> set key"
    and "key \<notin> set OBJECT_PROTOTYPE"
  shows "lookup obj key = Undefined"
proof -
  have "map_of obj key = None"
  proof (cases "map_of obj key")
    case (Some v)
    then have "(key, v) \<in> set obj" by (rule map_of_SomeD)
    with assms(1,2) show ?thesis by (auto simp: list_all_iff)
  qed simp
  with assms(3) show ?thesis by (simp add: lookup_def)
qed

lemma OBJECT_PROTOTYPE_unspaced: "k \<in> set OBJECT_PROTOTYPE \<Longrightarrow> 32 \<notin> set k"
  by (auto simp: OBJECT_PROTOTYPE_def ascii_def)

lemma member_text_spaced: "32 \<in> set (member_text m)"
  by (simp add: member_text_def ascii_def)

lemma I18N_en_unspaced: "list_all (\<lambda>(k, v). 32 \<notin> set k) I18N_en"
  unfolding I18N_en_def by (simp add: ascii_def)

lemma I18N_ru_unspaced: "list_all (\<lambda>(k, v). 32 \<notin> set k) I18N_ru"
  unfolding I18N_ru_def by (simp add: ascii_def)

lemma I18N_tables: "map_of I18N lang = Some tbl \<Longrightarrow> tbl = I18N_en \<or> tbl = I18N_ru"
  by (auto simp: I18N_def split: if_splits)

lemma t_spaced:
  assumes "32 \<in> set key" shows "t lang key = key"
proof -
  have k: "key \<notin> set OBJECT_PROTOTYPE" using assms OBJECT_PROTOTYPE_unspaced by blast
  have en: "lookup I18N_en key = Undefined" by (rule lookup_spaced [OF I18N_en_unspaced assms k])
  have ru: "lookup I18N_ru key = Undefined" by (rule lookup_spaced [OF I18N_ru_unspaced assms k])
  show ?thesis
  proof (cases "lookup I18N lang")
    case (Own tbl)
    then have "map_of I18N lang = Some tbl"
      by (auto simp: lookup_def split: option.splits if_splits)
    then have "tbl = I18N_en \<or> tbl = I18N_ru" by (rule I18N_tables)
    with Own en ru show ?thesis by (auto simp: t_def Let_def)
  qed (simp_all add: t_def Let_def en)
qed

lemma t_member_text: "t lang (member_text m) = member_text m"
  by (rule t_spaced [OF member_text_spaced])

section \<open>Facts about the tables\<close>

lemma I18N_en_nonempty: "list_all (\<lambda>(k, v). v \<noteq> []) I18N_en"
  unfolding I18N_en_def by simp

lemma I18N_ru_nonempty: "list_all (\<lambda>(k, v). v \<noteq> []) I18N_ru"
  unfolding I18N_ru_def by simp

lemma map_of_nonempty:
  assumes "list_all (\<lambda>(k, v). v \<noteq> []) tbl" and "map_of tbl key = Some v"
  shows "v \<noteq> []"
proof -
  from assms(2) have "(key, v) \<in> set tbl" by (rule map_of_SomeD)
  with assms(1) show ?thesis by (auto simp: list_all_iff)
qed

lemma table_entry_nonempty: "table_entry lang key = Some v \<Longrightarrow> v \<noteq> []"
  unfolding table_entry_def I18N_def
  by (auto split: option.splits if_splits
      dest: map_of_nonempty [OF I18N_en_nonempty] map_of_nonempty [OF I18N_ru_nonempty])

lemma table_entry_en: "table_entry (ascii ''en'') key = map_of I18N_en key"
  by (simp add: table_entry_def I18N_def)

section \<open>Localization resolution\<close>

text \<open>
  C8. The claim is that for every language tag and key \<open>t\<close> returns the entry of the
  table for that language and key when it exists, otherwise the English table's entry for
  that key when it exists, otherwise the key itself. The tables are plain objects, so a key
  that names a member every object inherits finds that member: in English the key
  \<open>constructor\<close>, which no table lists, resolves to the function \<open>Object\<close>, which the
  page prints as the text of a built-in function, where the claim gives the key itself.
\<close>

theorem t_finds_inherited_member:
  "resolve (ascii ''en'') (ascii ''constructor'') = ascii ''constructor'' \<and>
   t (ascii ''en'') (ascii ''constructor'') = ascii ''function Object() { [native code] }''"
proof -
  have "map_of I18N_en (ascii ''constructor'') = None"
    by (simp add: I18N_en_def)
  then show ?thesis
    by (simp add: resolve_def table_entry_def t_def Let_def lookup_def I18N_def
        OBJECT_PROTOTYPE_def member_text_def ascii_append [symmetric])
qed

text \<open>
  C8, amended. For every language tag and key neither of which names a member that
  every object inherits from \<open>Object.prototype\<close>, \<open>t\<close> returns the entry of the table for
  that language and key when it exists, otherwise the English table's entry for that key
  when it exists, otherwise the key itself. The text is a function of the language and the
  key only, so resolving a key twice in one language gives the same text.
\<close>

theorem t_resolves_listed_names:
  assumes "lang \<notin> set OBJECT_PROTOTYPE" and "key \<notin> set OBJECT_PROTOTYPE"
  shows "t lang key = resolve lang key"
proof -
  have fb: "(case lookup I18N_en key of
               Own v \<Rightarrow> if v = [] then key else v
             | Inherited m \<Rightarrow> member_text m
             | Undefined \<Rightarrow> key) =
            (case table_entry (ascii ''en'') key of Some v \<Rightarrow> v | None \<Rightarrow> key)"
    using assms(2)
    by (auto simp: lookup_own table_entry_en split: option.splits
        dest: map_of_nonempty [OF I18N_en_nonempty])
  have t': "t lang key =
     (case lookup I18N lang of
        Own tbl \<Rightarrow>
          (case lookup tbl key of
             Own v \<Rightarrow> if v = [] then resolve (ascii ''en'') key else v
           | Inherited m \<Rightarrow> member_text m
           | Undefined \<Rightarrow> resolve (ascii ''en'') key)
      | Inherited b \<Rightarrow> resolve (ascii ''en'') key
      | Undefined \<Rightarrow> resolve (ascii ''en'') key)"
    unfolding t_def Let_def fb resolve_def by (simp split: option.splits)
  have r: "resolve lang key =
     (case table_entry lang key of Some v \<Rightarrow> v | None \<Rightarrow> resolve (ascii ''en'') key)"
    by (simp add: resolve_def split: option.splits)
  show ?thesis
  proof (cases "map_of I18N lang")
    case None
    then have "lookup I18N lang = Undefined" "table_entry lang key = None"
      using assms(1) by (simp_all add: lookup_own table_entry_def)
    then show ?thesis by (simp add: t' r)
  next
    case (Some tbl)
    then have l: "lookup I18N lang = Own tbl" and e: "table_entry lang key = map_of tbl key"
      by (simp_all add: lookup_listed table_entry_def)
    show ?thesis
    proof (cases "map_of tbl key")
      case None
      with assms(2) have "lookup tbl key = Undefined" by (simp add: lookup_own)
      with None l e show ?thesis by (simp add: t' r)
    next
      case (Some v)
      with e have "v \<noteq> []" by (simp add: table_entry_nonempty)
      with Some l e show ?thesis by (simp add: t' r lookup_listed)
    qed
  qed
qed

theorem t_resolves_listed_names_witness:
  "ascii ''ru'' \<notin> set OBJECT_PROTOTYPE \<and> ascii ''no_such_key'' \<notin> set OBJECT_PROTOTYPE \<and>
   t (ascii ''ru'') (ascii ''no_such_key'') = resolve (ascii ''ru'') (ascii ''no_such_key'') \<and>
   resolve (ascii ''ru'') (ascii ''no_such_key'') = ascii ''no_such_key''"
proof -
  have a: "ascii ''ru'' \<notin> set OBJECT_PROTOTYPE" "ascii ''no_such_key'' \<notin> set OBJECT_PROTOTYPE"
    by (simp_all add: OBJECT_PROTOTYPE_def)
  have "map_of I18N_ru (ascii ''no_such_key'') = None" "map_of I18N_en (ascii ''no_such_key'') = None"
    by (simp_all add: I18N_ru_def I18N_en_def)
  then have b: "resolve (ascii ''ru'') (ascii ''no_such_key'') = ascii ''no_such_key''"
    by (simp add: resolve_def table_entry_def I18N_def)
  from a b t_resolves_listed_names [OF a] show ?thesis by simp
qed

section \<open>Streams and the invariant\<close>

lemma close_at_length [simp]: "length (close_at i sts) = length sts"
  by (induction i sts rule: close_at.induct) auto

lemma close_at_nth:
  "j < length sts \<Longrightarrow> close_at i sts ! j = (if j = i then (sts ! j)\<lparr>stream_open := False\<rparr> else sts ! j)"
  by (induction i sts arbitrary: j rule: close_at.induct) (auto simp: nth_Cons split: nat.splits)

lemma others_closed_nth:
  "others_closed cur sts = (\<forall>j < length sts. stream_open (sts ! j) \<longrightarrow> cur = Some j)"
  unfolding others_closed_def list_all_iff
  by (auto simp: in_set_enumerate_eq)

lemma open_streams_zero:
  "(open_streams s = 0) = (\<forall>j < length (streams s). \<not> stream_open (streams s ! j))"
  unfolding open_streams_def length_0_conv filter_empty_conv all_set_conv_all_nth by simp

lemma close_current_closes:
  assumes "wf s" shows "open_streams (close_current s) = 0"
  using assms
  by (auto simp: open_streams_zero wf_def others_closed_nth close_current_def close_at_nth
      split: option.splits)

lemma close_current_wf: "wf s \<Longrightarrow> wf (close_current s)"
  by (auto simp: wf_def others_closed_nth close_current_def close_at_nth split: option.splits)

lemma close_at_idem: "close_at i (close_at i sts) = close_at i sts"
  by (induction i sts rule: close_at.induct) auto

lemma close_current_fields [simp]:
  "eventSource (close_current s) = eventSource s"
  "taskId (close_current s) = taskId s"
  "confirmDisabled (close_current s) = confirmDisabled s"
  "stopDisabled (close_current s) = stopDisabled s"
  "runDisabled (close_current s) = runDisabled s"
  "waitingForUserInput (close_current s) = waitingForUserInput s"
  "replyHidden (close_current s) = replyHidden s"
  "statusText (close_current s) = statusText s"
  "logText (close_current s) = logText s"
  "currentLang (close_current s) = currentLang s"
  "requests (close_current s) = requests s"
  by (simp_all add: close_current_def split: option.splits)

lemma on_status_terminal:
  assumes "terminal (event_status r)"
  shows "on_status s r = Done (terminal_state s r)"
proof -
  from assms obtain d where d: "payload_data r = Inr d" "terminal (member d (ascii ''status''))"
    by (auto simp: event_status_def terminal_def split: sum.splits)
  have "Option.bind (statusLabel lang (or_empty (member d (ascii ''status'')))) to_string \<noteq> None" for lang
    using d(2)
    by (auto simp: terminal_def or_empty_def statusLabel_def split: option.splits looked.splits)
  then have "Option.bind (statusLabel lang (or_empty (member d (ascii ''status'')))) to_string =
      Some (status_text lang (member d (ascii ''status'')))" for lang
    by (auto simp: status_text_def split: option.splits)
  with d show ?thesis by (simp add: on_status_def Let_def terminal_state_def event_status_def)
qed

lemma terminal_state_idem: "terminal_state (terminal_state s r) r = terminal_state s r"
  by (simp add: terminal_state_def close_current_def setStatus_def close_at_idem split: option.splits)

lemma wf_cong:
  "eventSource s' = eventSource s \<Longrightarrow> streams s' = streams s \<Longrightarrow> wf s \<Longrightarrow> wf s'"
  by (simp add: wf_def split: option.splits)

lemma on_log_frame:
  "eventSource (state_of (on_log s r)) = eventSource s"
  "streams (state_of (on_log s r)) = streams s"
  by (simp_all add: on_log_def state_of_def appendLog_def split: sum.splits option.splits)

lemma on_needs_confirmation_frame:
  "eventSource (state_of (on_needs_confirmation s r)) = eventSource s"
  "streams (state_of (on_needs_confirmation s r)) = streams s"
  by (simp_all add: on_needs_confirmation_def state_of_def appendLog_def setStatus_def
      split: sum.splits option.splits)

lemma on_needs_user_input_frame:
  "eventSource (state_of (on_needs_user_input s r)) = eventSource s"
  "streams (state_of (on_needs_user_input s r)) = streams s"
  by (simp_all add: on_needs_user_input_def state_of_def appendLog_def setStatus_def
      split: sum.splits option.splits)

lemma on_result_frame:
  "eventSource (state_of (on_result s r)) = eventSource s"
  "streams (state_of (on_result s r)) = streams s"
  by (simp_all add: on_result_def state_of_def appendLog_def split: sum.splits option.splits)

lemma on_error_frame:
  "eventSource (state_of (on_error s)) = eventSource s"
  "streams (state_of (on_error s)) = streams s"
  by (simp_all add: on_error_def state_of_def appendLog_def)

lemma on_status_wf:
  assumes "wf s" shows "wf (state_of (on_status s r))"
proof -
  have b: "wf (setStatus x s)" for x
    by (rule wf_cong [OF _ _ assms]) (simp_all add: setStatus_def)
  have a: "wf (close_current ((setStatus x s)\<lparr>confirmDisabled := True, stopDisabled := True,
                 runDisabled := False, waitingForUserInput := False, replyHidden := True\<rparr>))" for x
    by (rule close_current_wf, rule wf_cong [OF _ _ b [of x]]) simp_all
  show ?thesis
    using assms a b
    by (simp add: on_status_def state_of_def Let_def split: sum.splits option.splits)
qed

lemma handle_event_wf:
  assumes "wf s" shows "wf (state_of (handle_event s ev))"
proof (cases ev)
  case (Event ty r)
  have c: "wf (state_of (Done s))" using assms by (simp add: state_of_def)
  have d: "wf (state_of (on_log s r))" "wf (state_of (on_needs_confirmation s r))"
    "wf (state_of (on_needs_user_input s r))" "wf (state_of (on_result s r))"
    "wf (state_of (on_error s))"
    by (rule wf_cong [OF _ _ assms]; simp add: on_log_frame on_needs_confirmation_frame
         on_needs_user_input_frame on_result_frame on_error_frame)+
  show ?thesis
    unfolding Event handle_event_def event.case
    using c d on_status_wf [OF assms] by simp
qed

lemma run_events_wf: "wf s \<Longrightarrow> wf (run_events s evs)"
  by (induction evs arbitrary: s) (auto simp: handle_event_wf)


section \<open>The invariant under the buttons\<close>

lemma connectEvents_Done:
  assumes "to_string_opt ident = Some txt"
  shows "connectEvents ident s =
     Done ((close_current s)\<lparr>streams := streams (close_current s) @
                       [\<lparr>stream_url = API_BASE @ ascii ''/tasks/'' @ txt @ ascii ''/events'',
                         stream_open = True\<rparr>],
                    eventSource := Some (length (streams s))\<rparr>)"
  using assms by (simp add: connectEvents_def Let_def close_current_def split: option.splits)

lemma close_current_length [simp]: "length (streams (close_current s)) = length (streams s)"
  by (simp add: close_current_def split: option.splits)

lemma connectEvents_wf:
  assumes "wf s" shows "wf (state_of (connectEvents ident s))"
proof (cases "to_string_opt ident")
  case None
  then show ?thesis using close_current_wf [OF assms]
    by (simp add: connectEvents_def Let_def state_of_def)
next
  case (Some idtext)
  have z: "\<forall>j < length (streams s). \<not> stream_open (streams (close_current s) ! j)"
    using close_current_closes [OF assms] by (simp add: open_streams_zero)
  show ?thesis
    unfolding connectEvents_Done [OF Some] state_of_def
    using z by (auto simp: wf_def others_closed_nth nth_append)
qed

lemma connectEvents_one_open:
  assumes "wf s" and "to_string_opt ident = Some txt"
  shows "open_streams (state_of (connectEvents ident s)) = 1"
proof -
  have "filter stream_open (streams (close_current s)) = []"
    using close_current_closes [OF assms(1)] by (simp add: open_streams_def)
  then show ?thesis
    unfolding connectEvents_Done [OF assms(2)] state_of_def
    by (simp add: open_streams_def)
qed

lemma run_click_frame:
  "eventSource (run_click s) = eventSource s" "streams (run_click s) = streams s"
  "taskId (run_click s) = taskId s" "currentLang (run_click s) = currentLang s"
  by (simp_all add: run_click_def Let_def resetUI_def setStatus_def)

lemma run_click_wf: "wf s \<Longrightarrow> wf (run_click s)"
  by (rule wf_cong [of _ s]) (simp_all add: run_click_frame)

lemma run_response_wf:
  assumes "wf s" shows "wf (state_of (run_response s resp))"
proof -
  have a: "wf (state_of (connectEvents x (s\<lparr>taskId := y, stopDisabled := False\<rparr>)))" for x y
    by (rule connectEvents_wf, rule wf_cong [OF _ _ assms]) simp_all
  have b: "wf (state_of (Thrown e s))" "wf (state_of (Done s))" for e
    using assms by (simp_all add: state_of_def)
  have c: "wf (state_of (Done ((setStatus x (appendLog y s))\<lparr>runDisabled := False\<rparr>)))" for x y
    by (rule wf_cong [OF _ _ assms]) (simp_all add: state_of_def setStatus_def appendLog_def)
  show ?thesis
    using a b c
    by (simp add: run_response_def split: response.splits raw.splits option.splits)
qed

lemma state_of_simps [simp]: "state_of (Done s) = s" "state_of (Thrown e s) = s"
  by (simp_all add: state_of_def)

lemma post_frame:
  "eventSource (state_of (post url body s)) = eventSource s"
  "streams (state_of (post url body s)) = streams s"
  by (simp_all add: post_def state_of_def split: option.splits)

lemma confirm_click_wf: "wf s \<Longrightarrow> wf (state_of (confirm_click s))"
  by (rule wf_cong [of _ s])
     (simp_all add: confirm_click_def Let_def post_frame setStatus_def appendLog_def)

lemma stop_click_wf: "wf s \<Longrightarrow> wf (state_of (stop_click s))"
  by (rule wf_cong [of _ s])
     (simp_all add: stop_click_def Let_def post_frame setStatus_def)


section \<open>Payloads without fields\<close>

lemma payload_data_empty: "payload_data (Parsed (JObj [])) = Inr (JObj [])"
  by (simp add: payload_data_def member_def or_object_def)

lemma log_line_blank:
  assumes "\<forall>k. member d k = None"
  shows "log_line lang d = Some (ascii ''[]'')"
proof -
  have "trim (ascii ''[] '') = ascii ''[]''"
    by (simp add: trim_def is_ws_def ascii_Cons)
  then show ?thesis
    using assms
    by (simp add: log_line_def actionLabel_def or_empty_def part_def errorText_def
        formatDuration_def lookup_def OBJECT_PROTOTYPE_def ACTION_KEYS_def ascii_Cons)
qed

lemma Nil_eq_ascii [simp]: "([] = ascii a) = (a = [])"
  by (simp add: ascii_def)

lemma statusLabel_empty: "statusLabel lang (JStr []) = Some (JStr [])"
proof -
  have "lookup STATUS_KEYS [] = Undefined"
    by (simp add: lookup_def OBJECT_PROTOTYPE_def STATUS_KEYS_def)
  then show ?thesis by (simp add: statusLabel_def)
qed

lemma blank_listeners:
  assumes "payload_data r = Inr d" and "\<forall>k. member d k = None"
  shows "on_log s r = Done (appendLog (ascii ''[]'') s)"
    and "on_needs_confirmation s r =
           Done (setStatus (t (currentLang s) (ascii ''status_wait_confirm''))
                  ((appendLog (t (currentLang s) (ascii ''log_confirm'') @ ascii '': '') s)
                     \<lparr>confirmDisabled := False, stopDisabled := False,
                      waitingForUserInput := False, replyHidden := True\<rparr>))"
    and "on_needs_user_input s r =
           Done (setStatus (t (currentLang s) (ascii ''status_wait_user''))
                  ((appendLog (t (currentLang s) (ascii ''log_user_input'') @ ascii '': '') s)
                     \<lparr>confirmDisabled := False, stopDisabled := False,
                      waitingForUserInput := True, replyHidden := False\<rparr>))"
    and "on_result s r = Done (appendLog (t (currentLang s) (ascii ''log_result'') @ ascii '': '') s)"
    and "on_status s r = Done (setStatus (t (currentLang s) (ascii ''status_prefix'') @ ascii '' '') s)"
proof -
  show "on_log s r = Done (appendLog (ascii ''[]'') s)"
    using assms by (simp add: on_log_def log_line_blank)
  show "on_needs_confirmation s r =
           Done (setStatus (t (currentLang s) (ascii ''status_wait_confirm''))
                  ((appendLog (t (currentLang s) (ascii ''log_confirm'') @ ascii '': '') s)
                     \<lparr>confirmDisabled := False, stopDisabled := False,
                      waitingForUserInput := False, replyHidden := True\<rparr>))"
    using assms by (simp add: on_needs_confirmation_def or_empty_def)
  show "on_needs_user_input s r =
           Done (setStatus (t (currentLang s) (ascii ''status_wait_user''))
                  ((appendLog (t (currentLang s) (ascii ''log_user_input'') @ ascii '': '') s)
                     \<lparr>confirmDisabled := False, stopDisabled := False,
                      waitingForUserInput := True, replyHidden := False\<rparr>))"
    using assms by (simp add: on_needs_user_input_def or_empty_def)
  show "on_result s r = Done (appendLog (t (currentLang s) (ascii ''log_result'') @ ascii '': '') s)"
    using assms by (simp add: on_result_def or_empty_def)
  show "on_status s r = Done (setStatus (t (currentLang s) (ascii ''status_prefix'') @ ascii '' '') s)"
    using assms
    by (simp add: on_status_def or_empty_def statusLabel_empty terminal_def Let_def)
qed

lemma handle_event_blank:
  assumes "payload_data r = Inr d" and "\<forall>k. member d k = None"
  shows "handle_event s (Event ty r) = handle_event s (Event ty (Parsed (JObj [])))"
proof -
  have e: "\<forall>k. member (JObj []) k = None" by (simp add: member_def)
  show ?thesis
    unfolding handle_event_def event.case
    by (simp add: blank_listeners [OF assms] blank_listeners [OF payload_data_empty e])
qed

lemma handle_event_blank_Done:
  assumes "payload_data r = Inr d" and "\<forall>k. member d k = None"
  shows "\<exists>s'. handle_event s (Event ty r) = Done s'"
  unfolding handle_event_def event.case
  by (simp add: blank_listeners [OF assms] on_error_def)

lemma handle_event_throws:
  assumes "ty \<in> set PAYLOAD_EVENTS"
  shows "handle_event s (Event ty Unparseable) = Thrown SyntaxError s"
    and "handle_event s (Event ty (Parsed JNull)) = Thrown TypeError s"
  using assms
  by (auto simp: PAYLOAD_EVENTS_def handle_event_def payload_data_def on_log_def
      on_needs_confirmation_def on_needs_user_input_def on_result_def on_status_def)


section \<open>Facts at the example states\<close>

lemma example_waiting_wf: "wf example_waiting"
  by (simp add: wf_def others_closed_def example_waiting_def fresh_page_def)

lemma done_payload_terminal: "terminal (event_status done_payload)"
  by (simp add: done_payload_def event_status_def payload_data_def member_def or_object_def
      terminal_def)

lemma on_status_taskId: "taskId (state_of (on_status s r)) = taskId s"
  by (simp add: on_status_def Let_def setStatus_def split: sum.splits option.splits)

lemma trim_prompt: "trim (ascii ''Open wikipedia.org'') = ascii ''Open wikipedia.org''"
  by (simp add: trim_def is_ws_def ascii_Cons)

lemma run_click_status:
  "trim (promptValue s) \<noteq> [] \<Longrightarrow>
   statusText (run_click s) = t (currentLang s) (ascii ''status_starting'')"
  by (simp add: run_click_def Let_def setStatus_def resetUI_def)

lemma connectEvents_status: "statusText (state_of (connectEvents x s)) = statusText s"
  by (simp add: connectEvents_def Let_def split: option.splits)

lemma run_response_ok_status:
  "statusText (state_of (run_response s (Response True stext body))) = statusText s"
  by (simp add: run_response_def connectEvents_status split: raw.splits)

lemma t_en_starting: "t (ascii ''en'') (ascii ''status_starting'') = ascii ''Starting task...''"
  by (simp add: t_def Let_def lookup_def I18N_def I18N_en_def)

lemma t_en_prefix: "t (ascii ''en'') (ascii ''status_prefix'') = ascii ''Status:''"
  by (simp add: t_def Let_def lookup_def I18N_def I18N_en_def)

lemma t_en_running: "t (ascii ''en'') (ascii ''status_running'') = ascii ''running''"
  by (simp add: t_def Let_def lookup_def I18N_def I18N_en_def)

lemma status_text_running: "status_text (ascii ''en'') (Some (JStr (ascii ''running''))) = ascii ''running''"
  by (simp add: status_text_def or_empty_def statusLabel_def lookup_def STATUS_KEYS_def t_en_running)

lemma confirm_click_waiting:
  assumes "waitingForUserInput s" and "truthy_opt (taskId s)"
    and "to_string_opt (taskId s) = Some idtext"
  shows "confirm_click s =
     Done (if trim (replyValue s) = []
           then s\<lparr>confirmDisabled := False, statusText := ascii ''Continuing...'',
                  logText := logText s @ t (currentLang s) (ascii ''alert_enter_reply'') @ [10]\<rparr>
           else s\<lparr>confirmDisabled := True, statusText := ascii ''Continuing...'',
                  replyValue := [],
                  requests := requests s @
                   [\<lparr>req_url = API_BASE @ ascii ''/tasks/'' @ idtext @ ascii ''/confirm'',
                     req_json = True,
                     req_body = Some (JObj [(ascii ''response'', JStr (trim (replyValue s)))])\<rparr>]\<rparr>)"
  using assms
  by (simp add: confirm_click_def Let_def setStatus_def appendLog_def post_def task_url_def)

lemma example_waiting_confirm:
  "waitingForUserInput example_waiting" "truthy_opt (taskId example_waiting)"
  "to_string_opt (taskId example_waiting) = Some (ascii ''t1'')"
  "requests example_waiting = []"
  by (simp_all add: example_waiting_def fresh_page_def truthy_opt_def to_string_opt_def)

lemma trim_hi: "trim (ascii '' hi'') = ascii ''hi''" "trim (ascii '' '') = []"
  by (simp_all add: trim_def is_ws_def ascii_Cons)

lemma confirm_url:
  "API_BASE @ ascii ''/tasks/'' @ ascii ''t1'' @ ascii ''/confirm'' =
   ascii ''http://localhost:8080/tasks/t1/confirm''"
  by (simp add: API_BASE_def ascii_def)


section \<open>A rejected response\<close>

lemma run_click_started:
  assumes "trim (promptValue s) \<noteq> []"
  shows "streams (run_click s) = streams s" "eventSource (run_click s) = eventSource s"
    "logText (run_click s) = []" "currentLang (run_click s) = currentLang s"
  using assms by (simp_all add: run_click_def Let_def setStatus_def resetUI_def)

lemma run_response_rejected:
  assumes "err \<noteq> JNull" and "to_string (or_text (member err (ascii ''detail'')) stext) = Some detail"
  shows "run_response s (Response False stext (Parsed err)) =
     Done (s\<lparr>logText := logText s @ t (currentLang s) (ascii ''log_failed_start'') @ ascii '': '' @
                         detail @ [10],
              statusText := t (currentLang s) (ascii ''status_prefix'') @ ascii '' '' @
                            t (currentLang s) (ascii ''status_error''),
              runDisabled := False\<rparr>)"
  using assms by (simp add: run_response_def setStatus_def appendLog_def)

lemma dispatch_open:
  assumes "i < length (streams s)" and "stream_open (streams s ! i)"
  shows "dispatch s i ev = handle_event s ev"
proof -
  have "drop i (streams s) = streams s ! i # drop (Suc i) (streams s)"
    using assms(1) by (simp add: Cons_nth_drop_Suc)
  then show ?thesis using assms(2) by (simp add: dispatch_def)
qed

lemma on_log_line:
  assumes "payload_data r = Inr d" and "log_line (currentLang s) d = Some line"
  shows "handle_event s (Event (ascii ''log'') r) = Done (appendLog line s)"
  using assms by (simp add: handle_event_def on_log_def)

lemma run_response_rejected_frame:
  "streams (state_of (run_response s (Response False stext body))) = streams s"
  "eventSource (state_of (run_response s (Response False stext body))) = eventSource s"
  "currentLang (state_of (run_response s (Response False stext body))) = currentLang s"
  by (simp_all add: run_response_def setStatus_def appendLog_def split: raw.splits option.splits)

lemma example_waiting_stream:
  "eventSource example_waiting = Some 0" "0 < length (streams example_waiting)"
  "stream_open (streams example_waiting ! 0)"
  "trim (promptValue example_waiting) \<noteq> []"
  "currentLang example_waiting = ascii ''en''"
  by (simp_all add: example_waiting_def trim_prompt)

lemma example_rejection:
  "JObj [(ascii ''detail'', JStr (ascii ''busy''))] \<noteq> JNull"
  "to_string (or_text (member (JObj [(ascii ''detail'', JStr (ascii ''busy''))]) (ascii ''detail''))
               (ascii ''Conflict'')) = Some (ascii ''busy'')"
  by (simp_all add: member_def or_text_def)


section \<open>The settings store\<close>

lemma model_key_not_legacy: "model_key p \<noteq> ascii ''llm_model''"
proof
  assume "model_key p = ascii ''llm_model''"
  then have "length (model_key p) = length (ascii ''llm_model'')" by simp
  then show False by (simp add: model_key_def ascii_def)
qed

lemma model_key_not_provider: "model_key p \<noteq> ascii ''llm_provider''"
proof
  assume "model_key p = ascii ''llm_provider''"
  then have "take 5 (model_key p) = take 5 (ascii ''llm_provider'')" by simp
  then show False by (simp add: model_key_def ascii_def)
qed

lemma model_key_inj: "(model_key p = model_key q) = (p = q)"
  by (simp add: model_key_def)

lemma model_options_nonempty:
  assumes "map_of MODEL_OPTIONS p = Some os"
  shows "os \<noteq> [] \<and> [] \<notin> set os"
  using assms by (auto simp: MODEL_OPTIONS_def split: if_splits)

lemma model_key_not_ui_lang: "model_key p \<noteq> ascii ''ui_lang''"
proof
  assume "model_key p = ascii ''ui_lang''"
  then have "take 1 (model_key p) = take 1 (ascii ''ui_lang'')" by simp
  then show False by (simp add: model_key_def ascii_def)
qed

lemma model_key_not_ui_theme: "model_key p \<noteq> ascii ''ui_theme''"
proof
  assume "model_key p = ascii ''ui_theme''"
  then have "take 1 (model_key p) = take 1 (ascii ''ui_theme'')" by simp
  then show False by (simp add: model_key_def ascii_def)
qed

lemma shown_options_nonempty:
  assumes "shown_options p = Some os" shows "os \<noteq> []"
  using assms by (auto simp: shown_options_def split: looked.splits if_splits)

lemma shown_options_empty_model:
  assumes "shown_options p = Some os" and "[] \<in> set os" shows "os = [[]]"
proof (cases "lookup MODEL_OPTIONS p")
  case (Own os')
  then have "map_of MODEL_OPTIONS p = Some os'" by (rule lookup_Own)
  then have "os' \<noteq> [] \<and> [] \<notin> set os'" by (rule model_options_nonempty)
  with Own assms show ?thesis by (simp add: shown_options_def)
qed (use assms in \<open>simp_all add: shown_options_def\<close>)

lemma setModelOptions_Done:
  assumes "shown_options p = Some os"
  shows "setModelOptions p s = Done (s\<lparr>modelOptions := os, modelValue := hd os\<rparr>)"
  using assms shown_options_nonempty [OF assms]
  by (cases os) (simp_all add: setModelOptions_def)

lemma setModelOptions_Thrown:
  assumes "shown_options p = None"
  shows "setModelOptions p s = Thrown TypeError (s\<lparr>modelOptions := [], modelValue := []\<rparr>)"
  using assms by (simp add: setModelOptions_def)

lemma setModelOptions_frame:
  "localStorage (state_of (setModelOptions p s)) = localStorage s"
  "providerValue (state_of (setModelOptions p s)) = providerValue s"
  "streams (state_of (setModelOptions p s)) = streams s"
  "eventSource (state_of (setModelOptions p s)) = eventSource s"
  by (simp_all add: setModelOptions_def state_of_def split: option.splits list.splits)

lemma model_shown_stored:
  assumes "shown_options p = Some os" and "m \<in> set os"
  shows "model_shown os (Some m) = m"
proof (cases "m = []")
  case True
  with assms have "os = [[]]" by (simp add: shown_options_empty_model)
  with True show ?thesis by (simp add: model_shown_def)
next
  case False
  with assms(2) show ?thesis by (simp add: model_shown_def select_value_def)
qed

lemma provider_change_Done:
  assumes "shown_options (providerValue s) = Some os"
  shows "provider_change s =
     Done (s\<lparr>modelOptions := os,
             modelValue := model_shown os (localStorage s (model_key (providerValue s))),
             localStorage := (localStorage s)(ascii ''llm_provider'' \<mapsto> providerValue s)\<rparr>)"
  by (simp add: provider_change_def Let_def setItem_def setModelOptions_Done [OF assms]
      model_shown_def model_key_not_provider split: option.splits)

lemma provider_change_store:
  "localStorage (state_of (provider_change s)) =
   (localStorage s)(ascii ''llm_provider'' \<mapsto> providerValue s)"
proof (cases "shown_options (providerValue s)")
  case None
  then show ?thesis
    by (simp add: provider_change_def Let_def setModelOptions_Thrown state_of_def setItem_def)
next
  case (Some os)
  then show ?thesis by (simp add: provider_change_Done state_of_def)
qed

lemma pick_model_eq:
  "pick_model m s =
   s\<lparr>modelValue := m, localStorage := (localStorage s)(model_key (providerValue s) \<mapsto> m)\<rparr>"
  by (simp add: pick_model_def model_change_def setItem_def)

lemma pick_provider_Done:
  assumes "shown_options q = Some os"
  shows "pick_provider q s =
     Done (s\<lparr>providerValue := q, modelOptions := os,
             modelValue := model_shown os (localStorage s (model_key q)),
             localStorage := (localStorage s)(ascii ''llm_provider'' \<mapsto> q)\<rparr>)"
  using assms by (simp add: pick_provider_def provider_change_Done)

lemma pick_provider_store:
  "localStorage (state_of (pick_provider q s)) = (localStorage s)(ascii ''llm_provider'' \<mapsto> q)"
  by (simp add: pick_provider_def provider_change_store)

lemma load_steps_store:
  "localStorage (load_language s) = (localStorage s)(ascii ''ui_lang'' \<mapsto> getItem_or s (ascii ''ui_lang'') (ascii ''ru''))"
  "localStorage (load_theme s) = (localStorage s)(ascii ''ui_theme'' \<mapsto> getItem_or s (ascii ''ui_theme'') (ascii ''light''))"
  "localStorage (load_search s) = localStorage s"
  "localStorage (load_safe_mode s) = localStorage s"
  "localStorage (load_browser_only s) = localStorage s"
  by (simp_all add: load_language_def load_theme_def load_search_def
      load_safe_mode_def load_browser_only_def applyLanguage_def applyTheme_def setItem_def
      setStatus_def Let_def split: option.splits)

lemma load_model_Done:
  assumes "shown_options (getItem_or s (ascii ''llm_provider'') (ascii ''openai'')) = Some os"
  shows "load_model s =
     Done (s\<lparr>providerValue :=
                select_value PROVIDER_OPTIONS (getItem_or s (ascii ''llm_provider'') (ascii ''openai'')),
             modelOptions := os,
             modelValue :=
                model_loaded os
                  (localStorage s (model_key (getItem_or s (ascii ''llm_provider'') (ascii ''openai''))))
                  (localStorage s (ascii ''llm_model''))\<rparr>)"
  unfolding load_model_def Let_def setModelOptions_Done [OF assms] outcome.case
  by (simp add: getItem_or_def model_loaded_def)

lemma load_model_store: "localStorage (state_of (load_model s)) = localStorage s"
proof (cases "shown_options (getItem_or s (ascii ''llm_provider'') (ascii ''openai''))")
  case None
  then show ?thesis by (simp add: load_model_def Let_def setModelOptions_Thrown state_of_def)
next
  case (Some os)
  then show ?thesis by (simp add: load_model_Done state_of_def)
qed

lemma loadSettings_store:
  "localStorage (state_of (loadSettings s)) =
   (localStorage s)(ascii ''ui_lang'' \<mapsto> getItem_or s (ascii ''ui_lang'') (ascii ''ru''),
                    ascii ''ui_theme'' \<mapsto>
                      getItem_or (load_language s) (ascii ''ui_theme'') (ascii ''light''))"
proof -
  let ?u = "load_search (load_theme (load_language s))"
  have "localStorage (state_of (loadSettings s)) = localStorage (state_of (load_model ?u))"
    by (simp add: loadSettings_def state_of_def load_steps_store split: outcome.splits)
  then show ?thesis by (simp add: load_model_store load_steps_store)
qed

lemma loadSettings_legacy:
  "localStorage (state_of (loadSettings s)) (ascii ''llm_model'') = localStorage s (ascii ''llm_model'')"
  by (simp add: loadSettings_store)

lemma loadSettings_Done:
  assumes "shown_options (getItem_or s (ascii ''llm_provider'') (ascii ''openai'')) = Some os"
  shows "\<exists>r. loadSettings s = Done r \<and>
           providerValue r =
             select_value PROVIDER_OPTIONS (getItem_or s (ascii ''llm_provider'') (ascii ''openai'')) \<and>
           modelOptions r = os \<and>
           modelValue r =
             model_loaded os
               (localStorage s (model_key (getItem_or s (ascii ''llm_provider'') (ascii ''openai''))))
               (localStorage s (ascii ''llm_model''))"
proof -
  let ?u = "load_search (load_theme (load_language s))"
  let ?P = "getItem_or s (ascii ''llm_provider'') (ascii ''openai'')"
  have st: "localStorage ?u k = localStorage s k"
    if "k \<noteq> ascii ''ui_lang''" and "k \<noteq> ascii ''ui_theme''" for k
    using that by (simp add: load_steps_store)
  have P: "getItem_or ?u (ascii ''llm_provider'') (ascii ''openai'') = ?P"
    by (simp add: getItem_or_def st)
  have f: "providerValue (load_browser_only (load_safe_mode v)) = providerValue v"
    "modelOptions (load_browser_only (load_safe_mode v)) = modelOptions v"
    "modelValue (load_browser_only (load_safe_mode v)) = modelValue v" for v
    by (simp_all add: load_safe_mode_def load_browser_only_def split: option.splits)
  from assms have "shown_options (getItem_or ?u (ascii ''llm_provider'') (ascii ''openai'')) = Some os"
    by (simp only: P)
  from load_model_Done [OF this] show ?thesis
    by (simp add: loadSettings_def f P st model_key_not_ui_lang model_key_not_ui_theme)
qed

lemma example_openai_options:
  "shown_options (providerValue example_openai) = Some (modelOptions example_openai)"
  "ascii ''gpt-4.1-mini'' \<in> set (modelOptions example_openai)"
  "providerValue example_openai = ascii ''openai''"
  by (simp_all add: example_openai_def shown_options_def lookup_def MODEL_OPTIONS_def)

lemma shown_options_anthropic:
  "shown_options (ascii ''anthropic'') =
   Some [ascii ''claude-3-5-sonnet-latest'', ascii ''claude-3-5-haiku-latest'']"
  by (simp add: shown_options_def lookup_def MODEL_OPTIONS_def)

lemma shown_options_openai:
  "shown_options (ascii ''openai'') = Some [ascii ''gpt-4.1-nano'', ascii ''gpt-4.1-mini'', ascii ''gpt-4.1'']"
  by (simp add: shown_options_def lookup_def MODEL_OPTIONS_def)


section \<open>Durations and the parts of the line\<close>





lemma show_nat_digit: "d < 10 \<Longrightarrow> show_nat d = [48 + d]"
  by (simp add: show_nat.simps)


lemma action_keys_nonempty: "map_of ACTION_KEYS nm = Some key \<Longrightarrow> key \<noteq> []"
  by (auto simp: ACTION_KEYS_def split: if_splits)

lemma actionLabel_text: "actionLabel lang (JStr nm) = Some (action_text lang nm)"
proof (cases "lookup ACTION_KEYS nm")
  case (Own key)
  then have "map_of ACTION_KEYS nm = Some key"
    by (auto simp: lookup_def split: option.splits if_splits)
  then have "key \<noteq> []" by (rule action_keys_nonempty)
  with Own show ?thesis by (simp add: actionLabel_def action_text_def)
qed (simp_all add: actionLabel_def action_text_def t_member_text)

lemma actionLabel_name:
  "to_string v = Some nm \<Longrightarrow> actionLabel lang v = Some (action_text lang nm)"
  using actionLabel_text [of lang nm] by (simp add: actionLabel_def)

lemma fragment_or_empty: "fragment x = Some txt \<Longrightarrow> to_string (or_empty x) = Some txt"
  by (auto simp: fragment_def or_empty_def split: option.splits if_splits)

lemma fragment_part: "fragment x = Some txt \<Longrightarrow> part x = Some (filter (\<lambda>p. p \<noteq> []) [txt])"
  by (auto simp: fragment_def part_def split: option.splits if_splits)

lemma fragment_errorText:
  "fragment x = Some txt \<Longrightarrow>
   errorText x = Some (if txt = [] then [] else ascii '' | error: '' @ txt)"
  by (auto simp: fragment_def errorText_def split: option.splits if_splits)

lemma paren_Nil [simp]: "(paren x = []) = (x = [])"
  by (simp add: paren_def)

lemma log_line_texts:
  assumes "fragment (member d (ascii ''tool'')) = Some tool"
    and "fragment (member d (ascii ''status'')) = Some status"
    and "fragment (member d (ascii ''reason'')) = Some reason"
    and "fragment (member d (ascii ''error'')) = Some err"
    and "to_string (or_empty (member d (ascii ''step''))) = Some step"
  shows "log_line lang d =
     Some (trim (ascii ''['' @ step @ ascii ''] '' @
                 join (ascii '' '')
                   (filter (\<lambda>p. p \<noteq> [])
                      [action_text lang tool, tool, status, reason,
                       paren (formatDuration (member d (ascii ''duration_ms'')))]) @
                 (if err = [] then [] else ascii '' | error: '' @ err)))"
  unfolding log_line_def
    actionLabel_name [OF fragment_or_empty [OF assms(1)]]
    fragment_part [OF assms(1)] fragment_part [OF assms(2)] fragment_part [OF assms(3)]
    fragment_errorText [OF assms(4)] assms(5)
  by (simp add: Let_def paren_def)

lemma formatDuration_None: "formatDuration None = []"
  by (simp add: formatDuration_def)








lemma example_inherited_members:
  "fragment (member example_inherited (ascii ''tool'')) = Some (ascii ''constructor'')"
  "fragment (member example_inherited (ascii ''status'')) = Some (ascii ''ok'')"
  "fragment (member example_inherited (ascii ''reason'')) = Some []"
  "fragment (member example_inherited (ascii ''error'')) = Some []"
  "to_string (or_empty (member example_inherited (ascii ''step''))) = Some (ascii ''1'')"
  "member example_inherited (ascii ''duration_ms'') = None"
  by (simp_all add: example_inherited_def member_def or_empty_def fragment_def show_int_def
      show_nat_digit ascii_def)

lemma action_text_constructor:
  "action_text lang (ascii ''constructor'') = ascii ''function Object() { [native code] }''"
  by (simp add: action_text_def lookup_def ACTION_KEYS_def OBJECT_PROTOTYPE_def member_text_def
      ascii_append [symmetric])

lemma log_line_inherited:
  "log_line lang example_inherited =
   Some (ascii ''[1] function Object() { [native code] } constructor ok'')"
  unfolding log_line_texts [OF example_inherited_members(1-5)] example_inherited_members(6)
    action_text_constructor formatDuration_None
  by (simp add: paren_def trim_def is_ws_def ascii_Cons)


section \<open>The page after loading\<close>

lemma load_steps_streams:
  "streams (load_language s) = streams s" "eventSource (load_language s) = eventSource s"
  "streams (load_theme s) = streams s" "eventSource (load_theme s) = eventSource s"
  "streams (load_search s) = streams s" "eventSource (load_search s) = eventSource s"
  "streams (load_safe_mode s) = streams s" "eventSource (load_safe_mode s) = eventSource s"
  "streams (load_browser_only s) = streams s" "eventSource (load_browser_only s) = eventSource s"
  by (simp_all add: load_language_def load_theme_def load_search_def
      load_safe_mode_def load_browser_only_def applyLanguage_def applyTheme_def setItem_def
      setStatus_def Let_def split: option.splits list.splits)

lemma load_model_streams:
  "streams (state_of (load_model s)) = streams s"
  "eventSource (state_of (load_model s)) = eventSource s"
  by (simp_all add: load_model_def Let_def setModelOptions_def state_of_def
      split: option.splits list.splits)

lemma loadSettings_streams:
  "streams (state_of (loadSettings s)) = streams s"
  "eventSource (state_of (loadSettings s)) = eventSource s"
proof -
  let ?u = "load_search (load_theme (load_language s))"
  have "streams (state_of (loadSettings s)) = streams (state_of (load_model ?u))"
    "eventSource (state_of (loadSettings s)) = eventSource (state_of (load_model ?u))"
    by (simp_all add: loadSettings_def state_of_def load_steps_streams split: outcome.splits)
  then show "streams (state_of (loadSettings s)) = streams s"
    "eventSource (state_of (loadSettings s)) = eventSource s"
    by (simp_all add: load_model_streams load_steps_streams)
qed

lemma page_load_wf: "wf (state_of (page_load store))"
proof -
  have "streams (state_of (page_load store)) = streams (state_of (loadSettings (fresh_page store)))"
    "eventSource (state_of (page_load store)) = eventSource (state_of (loadSettings (fresh_page store)))"
    by (simp_all add: page_load_def state_of_def resetUI_def setStatus_def split: outcome.splits)
  then have "streams (state_of (page_load store)) = []" "eventSource (state_of (page_load store)) = None"
    by (simp_all add: loadSettings_streams fresh_page_def)
  then show ?thesis by (simp add: wf_def others_closed_def)
qed

lemma page_load_throws:
  assumes "store (ascii ''llm_provider'') = Some (ascii ''constructor'')"
  shows "\<exists>s. page_load store = Thrown TypeError s"
proof -
  let ?u = "load_search (load_theme (load_language (fresh_page store)))"
  have "localStorage ?u (ascii ''llm_provider'') = Some (ascii ''constructor'')"
    using assms by (simp add: load_steps_store fresh_page_def)
  then have "getItem_or ?u (ascii ''llm_provider'') (ascii ''openai'') = ascii ''constructor''"
    by (simp add: getItem_or_def str_or_def)
  moreover have "shown_options (ascii ''constructor'') = None"
    by (simp add: shown_options_def lookup_def MODEL_OPTIONS_def OBJECT_PROTOTYPE_def)
  ultimately show ?thesis
    by (simp add: page_load_def loadSettings_def load_model_def Let_def setModelOptions_Thrown)
qed

lemma example_legacy_provider:
  "shown_options (getItem_or example_legacy (ascii ''llm_provider'') (ascii ''openai'')) =
   Some [ascii ''gpt-4.1-nano'', ascii ''gpt-4.1-mini'', ascii ''gpt-4.1'']"
  by (simp add: example_legacy_def fresh_page_def getItem_or_def str_or_def shown_options_openai)

lemma shown_options_unlisted:
  assumes "p \<notin> set PROVIDER_OPTIONS" and "shown_options p = Some os"
  shows "os = [[]]"
  using assms
  by (auto simp: shown_options_def lookup_def PROVIDER_OPTIONS_def MODEL_OPTIONS_def
      split: if_splits)

lemma shown_options_empty: "shown_options [] = Some [[]]"
  by (simp add: shown_options_def lookup_def MODEL_OPTIONS_def OBJECT_PROTOTYPE_def)

lemma load_model_options:
  assumes "load_model s = Done r"
  shows "shown_options (providerValue r) = Some (modelOptions r)"
proof -
  let ?P = "getItem_or s (ascii ''llm_provider'') (ascii ''openai'')"
  obtain os where os: "shown_options ?P = Some os"
    using assms by (cases "shown_options ?P") (simp_all add: load_model_def Let_def setModelOptions_Thrown)
  from assms have r: "providerValue r = select_value PROVIDER_OPTIONS ?P" "modelOptions r = os"
    by (auto simp: load_model_Done [OF os])
  show ?thesis
  proof (cases "?P \<in> set PROVIDER_OPTIONS")
    case True
    then show ?thesis by (simp add: r select_value_def os)
  next
    case False
    from shown_options_unlisted [OF False os] have "os = [[]]" .
    with False show ?thesis by (simp add: r select_value_def shown_options_empty)
  qed
qed

lemma page_load_options:
  assumes "page_load store = Done s"
  shows "shown_options (providerValue s) = Some (modelOptions s)"
proof -
  have f: "providerValue (load_browser_only (load_safe_mode v)) = providerValue v"
    "modelOptions (load_browser_only (load_safe_mode v)) = modelOptions v" for v
    by (simp_all add: load_safe_mode_def load_browser_only_def split: option.splits)
  from assms obtain r where r: "loadSettings (fresh_page store) = Done r" and s: "s = resetUI r"
    by (auto simp: page_load_def split: outcome.splits)
  from r obtain r' where r': "load_model (load_search (load_theme (load_language (fresh_page store)))) = Done r'"
    and rr: "r = load_browser_only (load_safe_mode r')"
    by (auto simp: loadSettings_def split: outcome.splits)
  from load_model_options [OF r'] show ?thesis
    by (simp add: s rr f resetUI_def setStatus_def)
qed

lemma pick_provider_options:
  assumes "pick_provider q s = Done s'"
  shows "shown_options (providerValue s') = Some (modelOptions s')"
proof -
  obtain os where os: "shown_options q = Some os"
    using assms
    by (cases "shown_options q")
       (simp_all add: pick_provider_def provider_change_def Let_def setModelOptions_Thrown)
  from assms show ?thesis by (auto simp: pick_provider_Done [OF os] os)
qed

section \<open>The stream listeners and the buttons\<close>

text \<open>
  C1. For every sequence of stream events \<open>evs\<close> processed from a well-formed state,
  the listener of a \<open>status\<close> event whose payload carries the status \<open>done\<close>,
  \<open>stopped\<close> or \<open>error\<close> runs to its end and leaves the confirm and stop controls
  disabled, the start control enabled, the awaiting-reply flag cleared, the reply input
  hidden and no stream open. Closing a closed stream is a no-op: the same event processed
  once more leaves the state as it is.
\<close>

theorem terminal_status_resets_controls:
  assumes "wf s" and "terminal (event_status r)"
  shows "\<exists>s'. handle_event (run_events s evs) (Event (ascii ''status'') r) = Done s' \<and>
           confirmDisabled s' \<and> stopDisabled s' \<and> \<not> runDisabled s' \<and>
           \<not> waitingForUserInput s' \<and> replyHidden s' \<and> open_streams s' = 0 \<and>
           handle_event s' (Event (ascii ''status'') r) = Done s'"
proof -
  let ?s0 = "run_events s evs"
  have wf0: "wf ?s0" using assms(1) by (rule run_events_wf)
  have ev: "handle_event u (Event (ascii ''status'') r) = on_status u r" for u
    by (simp add: handle_event_def)
  note l = on_status_terminal [OF assms(2)]
  have "wf ((setStatus (t (currentLang ?s0) (ascii ''status_prefix'') @ ascii '' '' @
                    status_text (currentLang ?s0) (event_status r)) ?s0)
                \<lparr>confirmDisabled := True, stopDisabled := True, runDisabled := False,
                 waitingForUserInput := False, replyHidden := True\<rparr>)"
    by (rule wf_cong [OF _ _ wf0]) (simp_all add: setStatus_def)
  then have closed: "open_streams (terminal_state ?s0 r) = 0"
    unfolding terminal_state_def by (rule close_current_closes)
  have flags: "confirmDisabled (terminal_state ?s0 r)" "stopDisabled (terminal_state ?s0 r)"
    "\<not> runDisabled (terminal_state ?s0 r)" "\<not> waitingForUserInput (terminal_state ?s0 r)"
    "replyHidden (terminal_state ?s0 r)"
    by (simp_all add: terminal_state_def setStatus_def)
  show ?thesis
    unfolding ev l using closed flags terminal_state_idem by blast
qed

theorem terminal_status_resets_controls_witness:
  "wf example_waiting \<and> terminal (event_status done_payload) \<and>
   (\<exists>s'. handle_event (run_events example_waiting [Event (ascii ''log'') (Parsed (JObj []))])
            (Event (ascii ''status'') done_payload) = Done s' \<and>
          confirmDisabled s' \<and> stopDisabled s' \<and> \<not> runDisabled s' \<and>
          \<not> waitingForUserInput s' \<and> replyHidden s' \<and> open_streams s' = 0 \<and>
          handle_event s' (Event (ascii ''status'') done_payload) = Done s')"
  using terminal_status_resets_controls [OF example_waiting_wf done_payload_terminal]
    example_waiting_wf done_payload_terminal
  by blast

text \<open>
  C2, as amended. An event whose payload parses to a value other than \<open>null\<close> and
  whose data has no member (the \<open>data\<close> member is absent or falsy, or is not an
  object) is processed as the event of the same type with the empty payload: the listener
  does not throw, and the \<open>log\<close> listener appends the line of blank fragments,
  \<open>[]\<close>.
\<close>

theorem absent_fields_as_empty_payload:
  assumes "p \<noteq> JNull" and "\<forall>k. member (or_object (member p (ascii ''data''))) k = None"
  shows "handle_event s (Event ty (Parsed p)) = handle_event s (Event ty (Parsed (JObj []))) \<and>
         (\<exists>s'. handle_event s (Event ty (Parsed p)) = Done s') \<and>
         handle_event s (Event (ascii ''log'') (Parsed p)) = Done (appendLog (ascii ''[]'') s)"
proof -
  have pd: "payload_data (Parsed p) = Inr (or_object (member p (ascii ''data'')))"
    using assms(1) by (simp add: payload_data_def)
  have "handle_event s (Event (ascii ''log'') (Parsed p)) = Done (appendLog (ascii ''[]'') s)"
    by (simp add: handle_event_def blank_listeners [OF pd assms(2)])
  then show ?thesis
    using handle_event_blank [OF pd assms(2)] handle_event_blank_Done [OF pd assms(2)]
    by blast
qed

theorem absent_fields_as_empty_payload_witness:
  "JObj [(ascii ''data'', JStr (ascii ''oops''))] \<noteq> JNull \<and>
   (\<forall>k. member (or_object (member (JObj [(ascii ''data'', JStr (ascii ''oops''))]) (ascii ''data''))) k = None) \<and>
   handle_event example_waiting (Event (ascii ''log'') (Parsed (JObj [(ascii ''data'', JStr (ascii ''oops''))]))) =
     Done (appendLog (ascii ''[]'') example_waiting)"
proof -
  have a: "JObj [(ascii ''data'', JStr (ascii ''oops''))] \<noteq> JNull" by simp
  have b: "\<forall>k. member (or_object (member (JObj [(ascii ''data'', JStr (ascii ''oops''))]) (ascii ''data''))) k = None"
    by (simp add: member_def or_object_def)
  show ?thesis
    using absent_fields_as_empty_payload [OF a b, of example_waiting "ascii ''log''"] a b
    by blast
qed

text \<open>
  C2 as stated fails: on a payload that is not JSON the \<open>log\<close> listener throws and
  appends nothing, where the empty payload appends \<open>[]\<close>.
\<close>

theorem unparseable_payload_throws:
  "handle_event example_waiting (Event (ascii ''log'') Unparseable) =
     Thrown SyntaxError example_waiting \<and>
   handle_event example_waiting (Event (ascii ''log'') (Parsed (JObj []))) =
     Done (appendLog (ascii ''[]'') example_waiting)"
proof -
  have e: "\<forall>k. member (JObj []) k = None" by (simp add: member_def)
  have "ascii ''log'' \<in> set PAYLOAD_EVENTS" by (simp add: PAYLOAD_EVENTS_def)
  then show ?thesis
    by (simp add: handle_event_throws)
       (simp add: handle_event_def blank_listeners [OF payload_data_empty e])
qed

text \<open>
  C3, as amended. On a success response whose body is not \<open>null\<close> and whose task
  identifier prints, the continuation of the run click stores the identifier, enables the
  stop control, leaves the status text as it was (the run click has set it to the
  starting label), closes the current stream and opens one new stream at the address of
  that identifier, which becomes the current one; from a well-formed state exactly one
  stream is open afterwards.
\<close>

theorem start_success_opens_one_stream:
  assumes "wf s" and "d \<noteq> JNull" and "to_string_opt (member d (ascii ''task_id'')) = Some txt"
  shows "\<exists>s'. run_response s (Response True stext (Parsed d)) = Done s' \<and>
           taskId s' = member d (ascii ''task_id'') \<and> \<not> stopDisabled s' \<and>
           statusText s' = statusText s \<and>
           streams s' = streams (close_current s) @
                 [\<lparr>stream_url = API_BASE @ ascii ''/tasks/'' @ txt @ ascii ''/events'',
                   stream_open = True\<rparr>] \<and>
           open_streams (close_current s) = 0 \<and>
           eventSource s' = Some (length (streams s)) \<and>
           open_streams s' = 1"
proof -
  let ?u = "s\<lparr>taskId := member d (ascii ''task_id''), stopDisabled := False\<rparr>"
  have wfu: "wf ?u" by (rule wf_cong [OF _ _ assms(1)]) simp_all
  have r: "run_response s (Response True stext (Parsed d)) = connectEvents (member d (ascii ''task_id'')) ?u"
    using assms(2) by (simp add: run_response_def)
  have cu: "streams (close_current ?u) = streams (close_current s)"
    by (simp add: close_current_def split: option.splits)
  have one: "open_streams (state_of (connectEvents (member d (ascii ''task_id'')) ?u)) = 1"
    using wfu assms(3) by (rule connectEvents_one_open)
  show ?thesis
    unfolding r using one close_current_closes [OF assms(1)]
    unfolding connectEvents_Done [OF assms(3)] state_of_def
    by (simp add: cu)
qed

theorem start_success_opens_one_stream_witness:
  "wf example_waiting \<and> JObj [(ascii ''task_id'', JStr (ascii ''t2''))] \<noteq> JNull \<and>
   to_string_opt (member (JObj [(ascii ''task_id'', JStr (ascii ''t2''))]) (ascii ''task_id'')) =
     Some (ascii ''t2'') \<and>
   (\<exists>s'. run_response example_waiting
            (Response True (ascii ''OK'') (Parsed (JObj [(ascii ''task_id'', JStr (ascii ''t2''))]))) =
          Done s' \<and>
          taskId s' = member (JObj [(ascii ''task_id'', JStr (ascii ''t2''))]) (ascii ''task_id'') \<and>
          \<not> stopDisabled s' \<and> statusText s' = statusText example_waiting \<and>
          streams s' = streams (close_current example_waiting) @
                 [\<lparr>stream_url = API_BASE @ ascii ''/tasks/'' @ ascii ''t2'' @ ascii ''/events'',
                   stream_open = True\<rparr>] \<and>
          open_streams (close_current example_waiting) = 0 \<and>
          eventSource s' = Some (length (streams example_waiting)) \<and>
          open_streams s' = 1)"
proof -
  have a: "to_string_opt (member (JObj [(ascii ''task_id'', JStr (ascii ''t2''))]) (ascii ''task_id'')) =
     Some (ascii ''t2'')"
    by (simp add: to_string_opt_def member_def)
  have b: "JObj [(ascii ''task_id'', JStr (ascii ''t2''))] \<noteq> JNull" by simp
  show ?thesis
    using start_success_opens_one_stream [OF example_waiting_wf b a, of "ascii ''OK''"]
      example_waiting_wf a b
    by blast
qed

text \<open>
  C3 as stated fails: after a successful start the status is the starting label, not
  the text that the status listener shows for \<open>running\<close>.
\<close>

theorem status_after_start_is_starting:
  "statusText (state_of (run_response (run_click example_idle)
      (Response True (ascii ''OK'') (Parsed (JObj [(ascii ''task_id'', JStr (ascii ''t1''))]))))) =
     ascii ''Starting task...'' \<and>
   t (ascii ''en'') (ascii ''status_prefix'') @ ascii '' '' @
     status_text (ascii ''en'') (Some (JStr (ascii ''running''))) = ascii ''Status: running''"
proof -
  have "trim (promptValue example_idle) \<noteq> []"
    by (simp add: example_idle_def trim_prompt)
  then have "statusText (run_click example_idle) = ascii ''Starting task...''"
    by (simp add: run_click_status t_en_starting) (simp add: example_idle_def t_en_starting)
  moreover have "ascii ''Status:'' @ ascii '' '' @ ascii ''running'' = ascii ''Status: running''"
    by (simp add: ascii_def)
  ultimately show ?thesis
    by (simp add: run_response_ok_status t_en_prefix status_text_running)
qed

text \<open>
  C4, as amended. A \<open>status\<close> event of status \<open>done\<close>, \<open>stopped\<close> or \<open>error\<close>
  closes the stream (from a well-formed state no stream is open afterwards) and leaves
  the task identifier and the global \<open>eventSource\<close> as they were.
\<close>

theorem terminal_status_keeps_task_id:
  assumes "wf s" and "terminal (event_status r)"
  shows "\<exists>s'. handle_event s (Event (ascii ''status'') r) = Done s' \<and>
           open_streams s' = 0 \<and> taskId s' = taskId s \<and> eventSource s' = eventSource s"
proof -
  have ev: "handle_event s (Event (ascii ''status'') r) = on_status s r"
    by (simp add: handle_event_def)
  have "wf ((setStatus (t (currentLang s) (ascii ''status_prefix'') @ ascii '' '' @
                    status_text (currentLang s) (event_status r)) s)
                \<lparr>confirmDisabled := True, stopDisabled := True, runDisabled := False,
                 waitingForUserInput := False, replyHidden := True\<rparr>)"
    by (rule wf_cong [OF _ _ assms(1)]) (simp_all add: setStatus_def)
  then have closed: "open_streams (terminal_state s r) = 0"
    unfolding terminal_state_def by (rule close_current_closes)
  show ?thesis
    unfolding ev on_status_terminal [OF assms(2)]
    using closed by (simp add: terminal_state_def setStatus_def)
qed

theorem terminal_status_keeps_task_id_witness:
  "wf example_waiting \<and> terminal (event_status done_payload) \<and>
   (\<exists>s'. handle_event example_waiting (Event (ascii ''status'') done_payload) = Done s' \<and>
          open_streams s' = 0 \<and> taskId s' = taskId example_waiting \<and>
          eventSource s' = eventSource example_waiting)"
  using terminal_status_keeps_task_id [OF example_waiting_wf done_payload_terminal]
    example_waiting_wf done_payload_terminal
  by blast

text \<open>
  C4 as stated fails: after the terminal status event the task identifier is still
  \<open>t1\<close>.
\<close>

theorem task_id_not_cleared:
  "taskId (state_of (handle_event example_waiting (Event (ascii ''status'') done_payload))) =
     Some (JStr (ascii ''t1''))"
proof -
  have "handle_event example_waiting (Event (ascii ''status'') done_payload) =
        on_status example_waiting done_payload"
    by (simp add: handle_event_def)
  then show ?thesis
    by (simp add: on_status_taskId) (simp add: example_waiting_def)
qed

text \<open>
  C5, as amended. While a task identifier is stored (and prints) and the awaiting-reply
  flag is set, the confirm click on a reply that is empty after trimming issues no
  request, appends the message to the log, enables the confirm control again and leaves
  the reply field as it is; on any other reply it issues one request, to the confirm
  address of the task, whose body is \<open>{response: reply}\<close> with the reply trimmed,
  and clears the reply field.
\<close>

theorem confirm_reply:
  assumes "waitingForUserInput s" and "truthy_opt (taskId s)"
    and "to_string_opt (taskId s) = Some idtext"
  shows "\<exists>s'. confirm_click s = Done s' \<and>
           (if trim (replyValue s) = []
            then requests s' = requests s \<and>
                 logText s' = logText s @ t (currentLang s) (ascii ''alert_enter_reply'') @ [10] \<and>
                 \<not> confirmDisabled s' \<and> replyValue s' = replyValue s
            else requests s' = requests s @
                   [\<lparr>req_url = API_BASE @ ascii ''/tasks/'' @ idtext @ ascii ''/confirm'',
                     req_json = True,
                     req_body = Some (JObj [(ascii ''response'', JStr (trim (replyValue s)))])\<rparr>] \<and>
                 replyValue s' = [] \<and> confirmDisabled s')"
  using assms
  by (simp add: confirm_click_def Let_def setStatus_def appendLog_def post_def task_url_def)

theorem confirm_reply_witness:
  "waitingForUserInput example_waiting \<and> truthy_opt (taskId example_waiting) \<and>
   to_string_opt (taskId example_waiting) = Some (ascii ''t1'') \<and>
   (\<exists>s'. confirm_click example_waiting = Done s' \<and>
          requests s' =
            [\<lparr>req_url = ascii ''http://localhost:8080/tasks/t1/confirm'', req_json = True,
              req_body = Some (JObj [(ascii ''response'', JStr (ascii ''hi''))])\<rparr>] \<and>
          replyValue s' = [] \<and> confirmDisabled s')"
proof -
  have r: "replyValue example_waiting = ascii '' hi''"
    by (simp add: example_waiting_def)
  show ?thesis
    using confirm_reply [OF example_waiting_confirm(1-3)] example_waiting_confirm
    by (simp add: r trim_hi confirm_url)
qed

text \<open>
  C5 as stated fails: the body carries the trimmed reply, not the reply text, and a
  reply of white space, though not empty, issues no request.
\<close>

theorem reply_is_trimmed:
  "replyValue example_waiting = ascii '' hi'' \<and>
   requests (state_of (confirm_click example_waiting)) =
     [\<lparr>req_url = ascii ''http://localhost:8080/tasks/t1/confirm'', req_json = True,
       req_body = Some (JObj [(ascii ''response'', JStr (ascii ''hi''))])\<rparr>] \<and>
   requests (state_of (confirm_click (example_waiting\<lparr>replyValue := ascii '' ''\<rparr>))) = []"
proof -
  have r: "replyValue example_waiting = ascii '' hi''"
    by (simp add: example_waiting_def)
  have "requests (state_of (confirm_click example_waiting)) =
     [\<lparr>req_url = ascii ''http://localhost:8080/tasks/t1/confirm'', req_json = True,
       req_body = Some (JObj [(ascii ''response'', JStr (ascii ''hi''))])\<rparr>]"
    by (simp add: confirm_click_waiting [OF example_waiting_confirm(1-3)] r trim_hi
        example_waiting_confirm(4) confirm_url)
  moreover have "requests (state_of (confirm_click (example_waiting\<lparr>replyValue := ascii '' ''\<rparr>))) = []"
    by (subst confirm_click_waiting [where idtext = "ascii ''t1''"])
       (simp_all add: example_waiting_confirm trim_hi)
  ultimately show ?thesis using r by simp
qed

text \<open>
  C6. For every prompt whose trimmed value is empty, the run click issues no request,
  shows the alert, and changes nothing else of the state; in particular the status text
  stays.
\<close>

theorem empty_prompt_no_request:
  assumes "trim (promptValue s) = []"
  shows "run_click s = s\<lparr>alerts := alerts s @ [t (currentLang s) (ascii ''alert_enter_task'')]\<rparr> \<and>
         requests (run_click s) = requests s \<and> statusText (run_click s) = statusText s"
  using assms by (simp add: run_click_def)

theorem empty_prompt_no_request_witness:
  "trim (promptValue (example_idle\<lparr>promptValue := ascii ''  ''\<rparr>)) = [] \<and>
   requests (run_click (example_idle\<lparr>promptValue := ascii ''  ''\<rparr>)) = [] \<and>
   alerts (run_click (example_idle\<lparr>promptValue := ascii ''  ''\<rparr>)) = [ascii ''Enter a task prompt.'']"
proof -
  have a: "trim (promptValue (example_idle\<lparr>promptValue := ascii ''  ''\<rparr>)) = []"
    by (simp add: trim_def is_ws_def ascii_Cons)
  have b: "t (ascii ''en'') (ascii ''alert_enter_task'') = ascii ''Enter a task prompt.''"
    by (simp add: t_def Let_def lookup_def I18N_def I18N_en_def)
  have c: "requests example_idle = []" "alerts example_idle = []" "currentLang example_idle = ascii ''en''"
    by (simp_all add: example_idle_def fresh_page_def)
  show ?thesis
    using empty_prompt_no_request [OF a] a b c by simp
qed

section \<open>The log line\<close>



section \<open>The per-provider model\<close>

text \<open>
  C9. Let the model select show the options of the selected provider \<open>p\<close>, and let \<open>q\<close>
  be a provider whose options are \<open>oq\<close>. Picking a model \<open>m\<close> changes the select and
  writes \<open>m\<close> under the key of \<open>p\<close>, which is never the legacy key \<open>llm_model\<close>, and
  changes nothing else. Picking \<open>q\<close> then stores \<open>q\<close> as the provider and refills the
  select with \<open>oq\<close>, showing the model stored under the key of \<open>q\<close> or, with none
  stored, the first option. Picking \<open>p\<close> again stores \<open>p\<close>, refills the select with the
  options of \<open>p\<close> and shows \<open>m\<close>; the store is then the first one with \<open>m\<close> under the
  key of \<open>p\<close> and \<open>p\<close> as the provider, so the key of every other provider holds what it
  held. From any state, picking a model, picking a provider and \<open>loadSettings\<close> leave the
  legacy key as it is. \<open>loadSettings\<close>, over a store whose provider has the options
  \<open>o0\<close>, shows the model under the provider's key when that is not empty, and the model
  under the legacy key only when it is.
\<close>

theorem per_provider_model:
  fixes s s0 :: state and m q :: jstring and oq o0 :: "jstring list"
  defines "p \<equiv> providerValue s"
  defines "s1 \<equiv> pick_model m s"
  defines "s2 \<equiv> s1\<lparr>providerValue := q, modelOptions := oq,
                      modelValue := model_shown oq (localStorage s1 (model_key q)),
                      localStorage := (localStorage s1)(ascii ''llm_provider'' \<mapsto> q)\<rparr>"
  defines "s3 \<equiv> s2\<lparr>providerValue := p, modelOptions := modelOptions s, modelValue := m,
                      localStorage := (localStorage s2)(ascii ''llm_provider'' \<mapsto> p)\<rparr>"
  defines "P \<equiv> getItem_or s0 (ascii ''llm_provider'') (ascii ''openai'')"
  assumes "shown_options p = Some (modelOptions s)" and "m \<in> set (modelOptions s)"
    and "shown_options q = Some oq" and "shown_options P = Some o0"
  shows "s1 = s\<lparr>modelValue := m, localStorage := (localStorage s)(model_key p \<mapsto> m)\<rparr> \<and>
         model_key p \<noteq> ascii ''llm_model'' \<and>
         pick_provider q s1 = Done s2 \<and>
         pick_provider p s2 = Done s3 \<and>
         localStorage s3 = (localStorage s)(model_key p \<mapsto> m, ascii ''llm_provider'' \<mapsto> p) \<and>
         (\<forall>p'. p' \<noteq> p \<longrightarrow> localStorage s3 (model_key p') = localStorage s (model_key p')) \<and>
         (\<forall>u. localStorage (pick_model m u) (ascii ''llm_model'') = localStorage u (ascii ''llm_model'') \<and>
              localStorage (state_of (pick_provider q u)) (ascii ''llm_model'') =
                localStorage u (ascii ''llm_model'') \<and>
              localStorage (state_of (loadSettings u)) (ascii ''llm_model'') =
                localStorage u (ascii ''llm_model'')) \<and>
         (\<exists>r. loadSettings s0 = Done r \<and> modelOptions r = o0 \<and>
              modelValue r =
                model_loaded o0 (localStorage s0 (model_key P)) (localStorage s0 (ascii ''llm_model'')))"
proof -
  have l: "ascii ''llm_model'' \<noteq> model_key p'" "ascii ''llm_provider'' \<noteq> model_key p'"
    "ascii ''llm_model'' \<noteq> ascii ''llm_provider''" for p'
    using model_key_not_legacy [of p'] model_key_not_provider [of p'] by auto
  have c1: "s1 = s\<lparr>modelValue := m, localStorage := (localStorage s)(model_key p \<mapsto> m)\<rparr>"
    by (simp add: s1_def p_def pick_model_eq)
  have c3: "pick_provider q s1 = Done s2"
    by (simp add: pick_provider_Done [OF assms(8)] s2_def)
  have p2: "providerValue s2 = q" "localStorage s2 (model_key p) = Some m"
    by (simp_all add: s2_def c1 model_key_not_provider)
  have "model_shown (modelOptions s) (Some m) = m"
    using assms(6,7) by (rule model_shown_stored)
  then have c4: "pick_provider p s2 = Done s3"
    by (simp add: pick_provider_Done [OF assms(6)] s3_def p2)
  have c5: "localStorage s3 = (localStorage s)(model_key p \<mapsto> m, ascii ''llm_provider'' \<mapsto> p)"
    by (simp add: s3_def s2_def c1)
  have c6: "localStorage s3 (model_key p') = localStorage s (model_key p')" if "p' \<noteq> p" for p'
    using that by (simp add: c5 model_key_not_provider model_key_inj)
  have c7: "localStorage (pick_model m u) (ascii ''llm_model'') = localStorage u (ascii ''llm_model'') \<and>
            localStorage (state_of (pick_provider q u)) (ascii ''llm_model'') =
              localStorage u (ascii ''llm_model'') \<and>
            localStorage (state_of (loadSettings u)) (ascii ''llm_model'') =
              localStorage u (ascii ''llm_model'')" for u
    by (simp add: pick_model_eq pick_provider_store loadSettings_legacy l)
  have c8: "\<exists>r. loadSettings s0 = Done r \<and> modelOptions r = o0 \<and>
              modelValue r =
                model_loaded o0 (localStorage s0 (model_key P)) (localStorage s0 (ascii ''llm_model''))"
    using loadSettings_Done [OF assms(9) [unfolded P_def]] by (auto simp: P_def)
  from c1 c3 c4 c5 c6 c7 c8 model_key_not_legacy [of p] show ?thesis by blast
qed

theorem per_provider_model_witness:
  "shown_options (providerValue example_openai) = Some (modelOptions example_openai) \<and>
   ascii ''gpt-4.1-mini'' \<in> set (modelOptions example_openai) \<and>
   shown_options (ascii ''anthropic'') =
     Some [ascii ''claude-3-5-sonnet-latest'', ascii ''claude-3-5-haiku-latest''] \<and>
   shown_options (getItem_or example_legacy (ascii ''llm_provider'') (ascii ''openai'')) =
     Some [ascii ''gpt-4.1-nano'', ascii ''gpt-4.1-mini'', ascii ''gpt-4.1''] \<and>
   modelValue (state_of (pick_provider (ascii ''anthropic'')
     (pick_model (ascii ''gpt-4.1-mini'') example_openai))) = ascii ''claude-3-5-haiku-latest'' \<and>
   modelValue (state_of (pick_provider (ascii ''openai'')
     (state_of (pick_provider (ascii ''anthropic'')
        (pick_model (ascii ''gpt-4.1-mini'') example_openai))))) = ascii ''gpt-4.1-mini'' \<and>
   modelValue (state_of (loadSettings example_legacy)) = ascii ''gpt-4.1''"
proof -
  note h = example_openai_options(1,2) shown_options_anthropic example_legacy_provider
  note th = per_provider_model [OF h]
  note c3 = th [THEN conjunct2, THEN conjunct2, THEN conjunct1]
  note c4 = th [THEN conjunct2, THEN conjunct2, THEN conjunct2, THEN conjunct1]
  note c8 = th [THEN conjunct2, THEN conjunct2, THEN conjunct2, THEN conjunct2, THEN conjunct2,
      THEN conjunct2, THEN conjunct2]
  have st: "localStorage example_openai (model_key (ascii ''anthropic'')) =
      Some (ascii ''claude-3-5-haiku-latest'')"
    by (simp add: example_openai_def fresh_page_def)
  have a: "modelValue (state_of (pick_provider (ascii ''anthropic'')
     (pick_model (ascii ''gpt-4.1-mini'') example_openai))) = ascii ''claude-3-5-haiku-latest''"
    unfolding c3
    by (simp add: state_of_def pick_model_eq st model_key_inj example_openai_options(3)
        model_shown_def select_value_def)
  have b: "modelValue (state_of (pick_provider (ascii ''openai'')
     (state_of (pick_provider (ascii ''anthropic'')
        (pick_model (ascii ''gpt-4.1-mini'') example_openai))))) = ascii ''gpt-4.1-mini''"
    unfolding c3 state_of_def outcome.case example_openai_options(3) [symmetric] c4
    by simp
  have lg: "localStorage example_legacy (ascii ''llm_model'') = Some (ascii ''gpt-4.1'')"
    by (simp add: example_legacy_def fresh_page_def)
  have lk: "localStorage example_legacy (model_key k) = None" for k
    by (simp add: example_legacy_def fresh_page_def model_key_not_legacy)
  from c8 have c: "modelValue (state_of (loadSettings example_legacy)) = ascii ''gpt-4.1''"
    by (auto simp: state_of_def model_loaded_def str_or_def select_value_def lg lk)
  from h a b c show ?thesis by blast
qed

section \<open>A rejected start\<close>

text \<open>
  C10. When the stream of index \<open>i\<close> is the current one and open, a run click with a
  prompt followed by a non-success response, whatever its body, leaves every stream as it
  was and \<open>i\<close> the current one: neither \<open>resetUI\<close> nor the error branch closes it. A
  \<open>log\<close> event that then arrives on stream \<open>i\<close> is dispatched and its line appended
  to the log. When the body of the response is not \<open>null\<close> and its detail prints, the
  handler runs to its end, the log holds the failure line alone before that event, and
  the status shows the error label.
\<close>

theorem rejected_start_keeps_old_stream:
  fixes s :: state and stext :: jstring and body :: raw
  defines "s' \<equiv> state_of (run_response (run_click s) (Response False stext body))"
  assumes "eventSource s = Some i" and "i < length (streams s)" and "stream_open (streams s ! i)"
    and "trim (promptValue s) \<noteq> []"
    and "payload_data r = Inr d" and "log_line (currentLang s) d = Some line"
  shows "streams s' = streams s \<and> eventSource s' = Some i \<and>
         dispatch s' i (Event (ascii ''log'') r) = Done (appendLog line s') \<and>
         logText (appendLog line s') = logText s' @ line @ [10] \<and>
         (\<forall>err detail.
            body = Parsed err \<and> err \<noteq> JNull \<and>
            to_string (or_text (member err (ascii ''detail'')) stext) = Some detail \<longrightarrow>
            run_response (run_click s) (Response False stext body) = Done s' \<and>
            statusText s' = t (currentLang s) (ascii ''status_prefix'') @ ascii '' '' @
                            t (currentLang s) (ascii ''status_error'') \<and>
            logText s' = t (currentLang s) (ascii ''log_failed_start'') @ ascii '': '' @ detail @ [10] \<and>
            \<not> runDisabled s')"
proof -
  note c = run_click_started [OF assms(5)]
  have st: "streams s' = streams s" "eventSource s' = Some i" "currentLang s' = currentLang s"
    unfolding s'_def using c assms(2) by (simp_all add: run_response_rejected_frame)
  have "dispatch s' i (Event (ascii ''log'') r) = handle_event s' (Event (ascii ''log'') r)"
    by (rule dispatch_open) (simp_all only: st assms(3,4))
  also have "\<dots> = Done (appendLog line s')"
    by (rule on_log_line [OF assms(6)]) (simp only: st assms(7))
  finally have d: "dispatch s' i (Event (ascii ''log'') r) = Done (appendLog line s')" .
  have a: "logText (appendLog line s') = logText s' @ line @ [10]"
    by (simp add: appendLog_def)
  have e: "run_response (run_click s) (Response False stext body) = Done s' \<and>
            statusText s' = t (currentLang s) (ascii ''status_prefix'') @ ascii '' '' @
                            t (currentLang s) (ascii ''status_error'') \<and>
            logText s' = t (currentLang s) (ascii ''log_failed_start'') @ ascii '': '' @ detail @ [10] \<and>
            \<not> runDisabled s'"
    if "body = Parsed err \<and> err \<noteq> JNull \<and>
        to_string (or_text (member err (ascii ''detail'')) stext) = Some detail" for err detail
    unfolding s'_def using that c
    by (simp add: run_response_rejected [of err stext detail])
  show ?thesis
    using st d a e by blast
qed

theorem rejected_start_keeps_old_stream_witness:
  "eventSource example_waiting = Some 0 \<and> 0 < length (streams example_waiting) \<and>
   stream_open (streams example_waiting ! 0) \<and> trim (promptValue example_waiting) \<noteq> [] \<and>
   payload_data (Parsed (JObj [])) = Inr (JObj []) \<and>
   log_line (currentLang example_waiting) (JObj []) = Some (ascii ''[]'') \<and>
   (\<exists>s'. run_response (run_click example_waiting)
            (Response False (ascii ''Conflict'') (Parsed (JObj [(ascii ''detail'', JStr (ascii ''busy''))]))) =
          Done s' \<and>
          streams s' = streams example_waiting \<and> eventSource s' = Some 0 \<and>
          statusText s' = ascii ''Status: error'' \<and>
          logText s' = ascii ''Failed to start: busy'' @ [10] \<and>
          dispatch s' 0 (Event (ascii ''log'') (Parsed (JObj []))) = Done (appendLog (ascii ''[]'') s'))"
proof -
  have e: "\<forall>k. member (JObj []) k = None" by (simp add: member_def)
  have c: "log_line (currentLang example_waiting) (JObj []) = Some (ascii ''[]'')"
    using e by (rule log_line_blank)
  have t1: "t (ascii ''en'') (ascii ''status_error'') = ascii ''error''"
    "t (ascii ''en'') (ascii ''log_failed_start'') = ascii ''Failed to start''"
    by (simp_all add: t_def Let_def lookup_def I18N_def I18N_en_def)
  have j: "ascii ''Status:'' @ ascii '' '' @ ascii ''error'' = ascii ''Status: error''"
    "ascii ''Failed to start'' @ ascii '': '' @ ascii ''busy'' @ [10] = ascii ''Failed to start: busy'' @ [10]"
    by (simp_all add: ascii_def)
  let ?resp = "Response False (ascii ''Conflict'') (Parsed (JObj [(ascii ''detail'', JStr (ascii ''busy''))]))"
  let ?s' = "state_of (run_response (run_click example_waiting) ?resp)"
  note th = rejected_start_keeps_old_stream [OF example_waiting_stream(1-4) payload_data_empty c,
        of "ascii ''Conflict''" "Parsed (JObj [(ascii ''detail'', JStr (ascii ''busy''))])"]
  from th have a: "streams ?s' = streams example_waiting" "eventSource ?s' = Some 0"
    "dispatch ?s' 0 (Event (ascii ''log'') (Parsed (JObj []))) = Done (appendLog (ascii ''[]'') ?s')"
    by blast+
  from th example_rejection
  have "run_response (run_click example_waiting) ?resp = Done ?s' \<and>
        statusText ?s' = t (currentLang example_waiting) (ascii ''status_prefix'') @ ascii '' '' @
                         t (currentLang example_waiting) (ascii ''status_error'') \<and>
        logText ?s' = t (currentLang example_waiting) (ascii ''log_failed_start'') @ ascii '': '' @
                      ascii ''busy'' @ [10]"
    by blast
  then have b: "run_response (run_click example_waiting) ?resp = Done ?s'"
    "statusText ?s' = ascii ''Status: error''"
    "logText ?s' = ascii ''Failed to start: busy'' @ [10]"
    by (simp_all add: example_waiting_stream(5) t1 t_en_prefix j)
  show ?thesis
    using a b example_waiting_stream(1-4) payload_data_empty c by blast
qed

end
